theory Spec2Isabelle
  imports Complex_Main
begin

section \<open>JavaScript strings and numbers\<close>

text \<open>
  Strings are character lists restricted to ASCII: \<open>toLowerCase\<close> folds the letters
  \<open>A\<close>..\<open>Z\<close> only.  JavaScript numbers are modelled by exact rationals (\<open>rat\<close>), without
  the rounding of IEEE doubles; the integer-valued scores of the keyword matcher are
  \<open>int\<close>.
\<close>

definition lower_char :: "char \<Rightarrow> char" where
  "lower_char c =
     (let n = (of_char c :: int) in if 65 \<le> n \<and> n \<le> 90 then char_of (n + 32) else c)"

definition toLowerCase :: "string \<Rightarrow> string" where
  "toLowerCase s = map lower_char s"

fun startsWith :: "string \<Rightarrow> string \<Rightarrow> bool" where
  "startsWith hay [] = True"
| "startsWith [] (n # ns) = False"
| "startsWith (c # cs) (n # ns) = (c = n \<and> startsWith cs ns)"

text \<open>\<open>str_includes hay needle\<close> is \<open>hay.includes(needle)\<close>: \<open>needle\<close> occurs contiguously in \<open>hay\<close>.\<close>

fun str_includes :: "string \<Rightarrow> string \<Rightarrow> bool" where
  "str_includes [] needle = (needle = [])"
| "str_includes (c # cs) needle = (startsWith (c # cs) needle \<or> str_includes cs needle)"

text \<open>A nullable string column is \<open>string option\<close>; \<open>null\<close> and \<open>''\<close> are the falsy values.\<close>

definition truthy :: "string option \<Rightarrow> bool" where
  "truthy v = (case v of None \<Rightarrow> False | Some s \<Rightarrow> s \<noteq> [])"

text \<open>\<open>a || b\<close> on nullable strings.\<close>

definition js_or :: "string option \<Rightarrow> string option \<Rightarrow> string option" where
  "js_or a b = (if truthy a then a else b)"

text \<open>\<open>Math.round\<close>: the nearest integer, a half rounding up.\<close>

definition Math_round :: "rat \<Rightarrow> int" where
  "Math_round x = \<lfloor>x + 1 / 2\<rfloor>"

text \<open>Decimal rendering of a non-negative integer inside a template string.\<close>

function show_digits :: "int \<Rightarrow> string" where
  "show_digits i =
     (if i < 10 then [char_of (48 + i)]
      else show_digits (i div 10) @ [char_of (48 + i mod 10)])"
  by pat_completeness auto
termination
  by (relation "measure nat") auto

declare show_digits.simps [simp del]

definition show_int :: "int \<Rightarrow> string" where
  "show_int i = (if i < 0 then CHR ''-'' # show_digits (- i) else show_digits i)"

section \<open>Rows of the database\<close>

text \<open>
  Identifiers are UUIDs in the schema; only their equality is ever used, so they are
  natural numbers here.  Timestamps are seconds.  A \<open>JSONB\<close> text column is held together
  with what \<open>JSON.parse\<close> makes of it.
\<close>

type_synonym uuid = nat

datatype 'a json_parse = ParseError | Parsed 'a

record user_profile =
  profile_id :: uuid
  user_id :: uuid
  skills :: "string list json_parse option"
  desired_job_titles :: "string list json_parse option"
  remote_preference :: "string option"
  salary_min :: "int option"
  salary_max :: "int option"

record job_listing =
  listing_id :: uuid
  title :: string
  company :: string
  location :: "string option"
  description :: "string option"
  salary_range :: "string option"
  remote_type :: "string option"
  job_type :: "string option"
  is_active :: bool
  scraped_at :: int

record reason =
  reason_type :: string
  reason_description :: string
  reason_weight :: int

record score =
  total :: int
  reasons :: "reason list"

section \<open>The keyword scorer\<close>

subsection \<open>Skills\<close>

definition matchSkills :: "string list \<Rightarrow> string option \<Rightarrow> int" where
  "matchSkills userSkills jobText =
     (if userSkills = [] \<or> \<not> truthy jobText then 0
      else
        let jobTextLower = toLowerCase (the jobText);
            matchedSkills = filter (\<lambda>skill. str_includes jobTextLower (toLowerCase skill)) userSkills;
            matchPercentage = rat_of_nat (length matchedSkills) / rat_of_nat (length userSkills)
        in Math_round (matchPercentage * 40))"

subsection \<open>Title\<close>

definition matchTitle :: "string list \<Rightarrow> string option \<Rightarrow> int" where
  "matchTitle desiredTitles jobTitle =
     (if desiredTitles = [] \<or> \<not> truthy jobTitle then 5
      else
        let jobTitleLower = toLowerCase (the jobTitle);
            hasMatch = list_ex (\<lambda>t. str_includes jobTitleLower (toLowerCase t)
                                   \<or> str_includes (toLowerCase t) jobTitleLower) desiredTitles
        in if hasMatch then 25 else 5)"

subsection \<open>Location\<close>

definition matchLocation :: "'a user_profile_scheme \<Rightarrow> 'b job_listing_scheme \<Rightarrow> int" where
  "matchLocation profile job =
     (let remotePreference = remote_preference profile;
          jobRemoteType = remote_type job
      in if remotePreference = Some ''any'' then 20
         else if remotePreference = jobRemoteType then 20
         else if remotePreference = Some ''hybrid''
                 \<and> (jobRemoteType = Some ''remote'' \<or> jobRemoteType = Some ''onsite'') then 10
         else 5)"

subsection \<open>Salary\<close>

definition isDigit :: "char \<Rightarrow> bool" where
  "isDigit c = (let n = (of_char c :: int) in 48 \<le> n \<and> n \<le> 57)"

definition digit_val :: "char \<Rightarrow> int" where
  "digit_val c = of_char c - 48"

text \<open>The value of a digit string, most significant digit first.\<close>

definition digits_val :: "string \<Rightarrow> int" where
  "digits_val ds = foldl (\<lambda>acc c. 10 * acc + digit_val c) 0 ds"

text \<open>
  The repetition \<open>(?:,?\d{3})*\<close>: each round takes an optional comma and then exactly
  three digits; it stops at the first position where that is impossible.  The result is
  the text matched and the rest of the input.
\<close>

fun thousands :: "string \<Rightarrow> string \<times> string" where
  "thousands (a # b # c # d # rest) =
     (if a = CHR '','' \<and> isDigit b \<and> isDigit c \<and> isDigit d then
        (let (m, r) = thousands rest in (a # b # c # d # m, r))
      else if isDigit a \<and> isDigit b \<and> isDigit c then
        (let (m, r) = thousands (d # rest) in (a # b # c # m, r))
      else ([], a # b # c # d # rest))"
| "thousands [a, b, c] =
     (if isDigit a \<and> isDigit b \<and> isDigit c then ([a, b, c], []) else ([], [a, b, c]))"
| "thousands s = ([], s)"

text \<open>The optional group \<open>(?:\.\d+)?\<close>.\<close>

definition fraction :: "string \<Rightarrow> string" where
  "fraction s =
     (case s of
        c # d # rest \<Rightarrow> if c = CHR ''.'' \<and> isDigit d then c # takeWhile isDigit (d # rest) else []
      | _ \<Rightarrow> [])"

text \<open>
  \<open>salaryString.match(/\$?(\d{1,3}(?:,?\d{3})*(?:\.\d+)?)/)\<close>, as its first capture group,
  or \<open>None\<close> for \<open>null\<close>.  Everything after the first digit of the pattern is optional, so
  the leftmost match starts at the first digit of the string (or at a dollar sign just
  before it) and the capture group starts at that digit; each quantifier is greedy and
  none has to give anything back.
\<close>

definition salary_match :: "string \<Rightarrow> string option" where
  "salary_match salaryString =
     (let s = dropWhile (\<lambda>c. \<not> isDigit c) salaryString in
      if s = [] then None
      else
        let lead = takeWhile isDigit (take 3 s);
            (groups, r) = thousands (drop (length lead) s)
        in Some (lead @ groups @ fraction r))"

text \<open>\<open>parseFloat\<close> on digits with an optional fractional part.\<close>

definition parseFloat :: "string \<Rightarrow> rat" where
  "parseFloat s =
     (let ip = takeWhile isDigit s;
          fp = (case drop (length ip) s of c # ds \<Rightarrow> if c = CHR ''.'' then takeWhile isDigit ds else [] | [] \<Rightarrow> [])
      in rat_of_int (digits_val ip) + rat_of_int (digits_val fp) / 10 ^ length fp)"

definition parseSalary :: "string option \<Rightarrow> rat" where
  "parseSalary salaryString =
     (if \<not> truthy salaryString then 0
      else case salary_match (the salaryString) of
             Some g \<Rightarrow> parseFloat (filter (\<lambda>c. c \<noteq> CHR '','') g)
           | None \<Rightarrow> 0)"

definition matchSalary :: "'a user_profile_scheme \<Rightarrow> string option \<Rightarrow> int" where
  "matchSalary profile salaryRange =
     (if salary_min profile = None \<or> salary_min profile = Some 0 \<or> \<not> truthy salaryRange then 5
      else
        let salaryMatch = parseSalary salaryRange
        in if salaryMatch \<ge> of_int (the (salary_min profile)) then 10 else 0)"

subsection \<open>Job type\<close>

definition matchJobType :: "'a user_profile_scheme \<Rightarrow> string option \<Rightarrow> int" where
  "matchJobType profile jobType =
     (if \<not> truthy jobType then 3
      else if jobType = Some ''full_time'' \<or> jobType = Some ''full-time'' then 5
      else 3)"

subsection \<open>The total\<close>

definition push_reason :: "string \<Rightarrow> string \<Rightarrow> string \<Rightarrow> int \<Rightarrow> reason list \<Rightarrow> reason list" where
  "push_reason ty label outOf s rs =
     (if s > 0 then
        rs @ [\<lparr>reason_type = ty,
                reason_description = label @ show_int s @ ''/'' @ outOf @ '' points'',
                reason_weight = s\<rparr>]
      else rs)"

definition calculateMatchScore ::
  "'a user_profile_scheme \<Rightarrow> string list \<Rightarrow> string list \<Rightarrow> 'b job_listing_scheme \<Rightarrow> score" where
  "calculateMatchScore profile skills' desiredTitles job =
     (let skillScore = matchSkills skills' (js_or (description job) (Some (title job)));
          reasons1 = push_reason ''skill'' ''Skills match: '' ''40'' skillScore [];
          titleScore = matchTitle desiredTitles (Some (title job));
          reasons2 = push_reason ''title'' ''Title match: '' ''25'' titleScore reasons1;
          locationScore = matchLocation profile job;
          reasons3 = push_reason ''location'' ''Location match: '' ''20'' locationScore reasons2;
          salaryScore = matchSalary profile (salary_range job);
          reasons4 = push_reason ''salary'' ''Salary match: '' ''10'' salaryScore reasons3;
          typeScore = matchJobType profile (job_type job);
          reasons5 = push_reason ''type'' ''Job type match: '' ''5'' typeScore reasons4;
          totalScore = skillScore + titleScore + locationScore + salaryScore + typeScore
      in \<lparr>total = min 100 (Math_round (of_int totalScore)), reasons = reasons5\<rparr>)"


section \<open>The database and its queries\<close>

record job_match =
  jm_id :: uuid
  jm_user_id :: uuid
  jm_job_id :: uuid
  match_score :: int
  match_reasons :: "reason list"
  jm_status :: string
  reviewed :: bool
  approved :: bool
  jm_created_at :: int

record application_queue_row =
  aq_id :: uuid
  aq_user_id :: "uuid option"
  aq_job_id :: "uuid option"
  aq_match_id :: "uuid option"
  aq_status :: string
  aq_error_message :: "string option"
  aq_retry_count :: int
  aq_processed_at :: "int option"

record notification_row =
  nt_user_id :: uuid
  nt_type :: string
  nt_entity_id :: uuid

record user_row =
  usr_id :: uuid
  tracking_token :: string

text \<open>
  The state every handler runs against: the tables, the clock behind \<open>NOW()\<close>, and
  \<open>faults\<close>, the fate of the coming \<open>query\<close> calls in order (\<open>True\<close>: the call rejects;
  past the end of the list every call goes through).
\<close>

record database =
  users :: "user_row list"
  user_profiles :: "user_profile list"
  job_listings :: "job_listing list"
  job_matches :: "job_match list"
  application_queue :: "application_queue_row list"
  notifications :: "notification_row list"
  now :: int
  faults :: "bool list"

datatype js_error = QueryError | SyntaxError

text \<open>\<open>await query(...)\<close>: the statement runs unless this call is marked to reject.\<close>

definition query :: "(database \<Rightarrow> 'a \<times> database) \<Rightarrow> database \<Rightarrow> (js_error + 'a) \<times> database" where
  "query stmt db =
     (case faults db of
        [] \<Rightarrow> (let (r, db') = stmt db in (Inr r, db'))
      | bad # later \<Rightarrow>
          if bad then (Inl QueryError, db\<lparr>faults := later\<rparr>)
          else (let (r, db') = stmt (db\<lparr>faults := later\<rparr>) in (Inr r, db')))"

text \<open>\<open>uuid_generate_v4()\<close>: an identifier not in use.\<close>

definition uuid_generate_v4 :: "uuid list \<Rightarrow> uuid" where
  "uuid_generate_v4 used = Suc (fold max used 0)"

text \<open>\<open>SELECT * FROM user_profiles WHERE user_id = $1\<close>\<close>

definition select_profile :: "uuid \<Rightarrow> database \<Rightarrow> user_profile list \<times> database" where
  "select_profile userId db = (filter (\<lambda>p. user_id p = userId) (user_profiles db), db)"

text \<open>
  The active listings scraped in the last 30 days that have no match row for the user,
  newest first, at most 100.
\<close>

definition select_unmatched_jobs :: "uuid \<Rightarrow> database \<Rightarrow> job_listing list \<times> database" where
  "select_unmatched_jobs userId db =
     (let matched = map jm_job_id (filter (\<lambda>m. jm_user_id m = userId) (job_matches db));
          rows = filter (\<lambda>j. is_active j \<and> scraped_at j > now db - 30 * 86400
                             \<and> listing_id j \<notin> set matched) (job_listings db)
      in (take 100 (sort_key (\<lambda>j. - scraped_at j) rows), db))"

text \<open>
  \<open>INSERT INTO job_matches (user_id, job_id, match_score, match_reasons) VALUES ($1, $2, $3, $4)
  ON CONFLICT (user_id, job_id) DO NOTHING\<close>: the number of rows written and the new state.
  The other columns take their defaults.
\<close>

definition insert_job_match ::
  "uuid \<Rightarrow> uuid \<Rightarrow> int \<Rightarrow> reason list \<Rightarrow> database \<Rightarrow> nat \<times> database" where
  "insert_job_match userId jobId total' reasons' db =
     (if list_ex (\<lambda>m. jm_user_id m = userId \<and> jm_job_id m = jobId) (job_matches db) then (0, db)
      else
        (1, db\<lparr>job_matches := job_matches db @
              [\<lparr>jm_id = uuid_generate_v4 (map jm_id (job_matches db)),
                jm_user_id = userId, jm_job_id = jobId,
                match_score = total', match_reasons = reasons',
                jm_status = ''pending'', reviewed = False, approved = False,
                jm_created_at = now db\<rparr>]\<rparr>))"

section \<open>Matching jobs for a user\<close>

record match_result =
  mr_jobId :: uuid
  mr_title :: string
  mr_company :: string
  mr_location :: "string option"
  mr_match_score :: int
  mr_match_reasons :: "reason list"

text \<open>\<open>column ? JSON.parse(column) : []\<close>\<close>

definition parse_or_empty :: "string list json_parse option \<Rightarrow> js_error + string list" where
  "parse_or_empty col =
     (case col of None \<Rightarrow> Inr [] | Some ParseError \<Rightarrow> Inl SyntaxError | Some (Parsed xs) \<Rightarrow> Inr xs)"

text \<open>
  The \<open>for (const job of jobs)\<close> loop.  A failed insert is caught inside the loop: it is
  logged and the job is not added to \<open>matches\<close>.
\<close>

fun match_loop ::
  "uuid \<Rightarrow> int \<Rightarrow> user_profile \<Rightarrow> string list \<Rightarrow> string list \<Rightarrow> job_listing list
     \<Rightarrow> match_result list \<Rightarrow> database \<Rightarrow> match_result list \<times> database" where
  "match_loop userId limit profile skills' desiredTitles [] matches db = (matches, db)"
| "match_loop userId limit profile skills' desiredTitles (job # rest) matches db =
     (let sc = calculateMatchScore profile skills' desiredTitles job;
          (matches', db') =
            (if total sc \<ge> 60 then
               (case query (insert_job_match userId (listing_id job) (total sc) (reasons sc)) db of
                  (Inr n, db1) \<Rightarrow>
                    (matches @ [\<lparr>mr_jobId = listing_id job, mr_title = title job,
                                  mr_company = company job, mr_location = location job,
                                  mr_match_score = total sc, mr_match_reasons = reasons sc\<rparr>], db1)
                | (Inl dbError, db1) \<Rightarrow> (matches, db1))
             else (matches, db))
      in if int (length matches') \<ge> limit then (matches', db')
         else match_loop userId limit profile skills' desiredTitles rest matches' db')"

text \<open>The body of the outer \<open>try\<close>: \<open>Inl\<close> is an exception leaving it.\<close>

definition matchJobsForUser_try ::
  "uuid \<Rightarrow> int \<Rightarrow> database \<Rightarrow> (js_error + match_result list) \<times> database" where
  "matchJobsForUser_try userId limit db =
     (case query (select_profile userId) db of
        (Inl e, db1) \<Rightarrow> (Inl e, db1)
      | (Inr [], db1) \<Rightarrow> (Inr [], db1)
      | (Inr (profile # others), db1) \<Rightarrow>
          (case parse_or_empty (skills profile) of
             Inl e \<Rightarrow> (Inl e, db1)
           | Inr skills' \<Rightarrow>
               (case parse_or_empty (desired_job_titles profile) of
                  Inl e \<Rightarrow> (Inl e, db1)
                | Inr desiredTitles \<Rightarrow>
                    (case query (select_unmatched_jobs userId) db1 of
                       (Inl e, db2) \<Rightarrow> (Inl e, db2)
                     | (Inr [], db2) \<Rightarrow> (Inr [], db2)
                     | (Inr jobs, db2) \<Rightarrow>
                         (let (matches, db3) =
                                match_loop userId limit profile skills' desiredTitles jobs [] db2
                          in (Inr matches, db3))))))"

text \<open>The whole method: the outer \<open>catch\<close> logs and returns \<open>[]\<close>.\<close>

definition matchJobsForUser ::
  "uuid \<Rightarrow> int \<Rightarrow> database \<Rightarrow> (js_error + match_result list) \<times> database" where
  "matchJobsForUser userId limit db =
     (case matchJobsForUser_try userId limit db of
        (Inl error, db') \<Rightarrow> (Inr [], db')
      | (Inr matches, db') \<Rightarrow> (Inr matches, db'))"


section \<open>Reviewing a match\<close>

text \<open>
  \<open>UPDATE job_matches SET reviewed = TRUE, approved = $1 WHERE id = $2 AND user_id = $3
  RETURNING *\<close>: the rows as updated, and the new state.
\<close>

definition update_match_review ::
  "bool \<Rightarrow> uuid \<Rightarrow> uuid \<Rightarrow> database \<Rightarrow> job_match list \<times> database" where
  "update_match_review approved' matchId userId db =
     (let hit = (\<lambda>m. jm_id m = matchId \<and> jm_user_id m = userId);
          upd = (\<lambda>m. m\<lparr>reviewed := True, approved := approved'\<rparr>)
      in (map upd (filter hit (job_matches db)),
          db\<lparr>job_matches := map (\<lambda>m. if hit m then upd m else m) (job_matches db)\<rparr>))"

text \<open>\<open>reviewMatch\<close>: \<open>result.rows[0]\<close>, which is \<open>undefined\<close> when no row was hit; a failed
  query is logged and thrown again.\<close>

definition reviewMatch ::
  "uuid \<Rightarrow> uuid \<Rightarrow> bool \<Rightarrow> database \<Rightarrow> (js_error + job_match option) \<times> database" where
  "reviewMatch userId matchId approved' db =
     (case query (update_match_review approved' matchId userId) db of
        (Inl error, db') \<Rightarrow> (Inl error, db')
      | (Inr rows, db') \<Rightarrow> (Inr (case rows of [] \<Rightarrow> None | r # _ \<Rightarrow> Some r), db'))"

text \<open>What a handler sends: \<open>res.status(code).json({error})\<close> or \<open>res.json({message, match})\<close>.\<close>

datatype response = Json_error nat string | Json_ok string job_match

text \<open>
  \<open>await query(`INSERT INTO application_queue (job_match_id, status) VALUES ($1, 'pending')`,
  [matchId])\<close>.  The table \<open>application_queue\<close> has the columns \<open>user_id\<close>, \<open>job_id\<close> and
  \<open>match_id\<close> and no column \<open>job_match_id\<close>, so PostgreSQL refuses the statement: the call
  rejects and no row is written.
\<close>

definition insert_queue_for_match :: "uuid \<Rightarrow> database \<Rightarrow> (js_error + nat) \<times> database" where
  "insert_queue_for_match matchId db = (Inl QueryError, db\<lparr>faults := tl (faults db)\<rparr>)"

text \<open>
  \<open>PUT /matches/:matchId/review\<close>.  The body's \<open>approved\<close> is \<open>None\<close> when it is not a
  boolean.
\<close>

definition review_route ::
  "uuid \<Rightarrow> uuid \<Rightarrow> bool option \<Rightarrow> database \<Rightarrow> response \<times> database" where
  "review_route userId matchId body db =
     (case body of
        None \<Rightarrow> (Json_error 400 ''approved must be boolean'', db)
      | Some approved' \<Rightarrow>
          (case reviewMatch userId matchId approved' db of
             (Inl error, db1) \<Rightarrow> (Json_error 500 ''Failed to review match'', db1)
           | (Inr None, db1) \<Rightarrow> (Json_error 404 ''Match not found'', db1)
           | (Inr (Some match), db1) \<Rightarrow>
               if approved' then
                 (case insert_queue_for_match matchId db1 of
                    (Inl error, db2) \<Rightarrow> (Json_error 500 ''Failed to review match'', db2)
                  | (Inr n, db2) \<Rightarrow> (Json_ok ''Match approved - queued for application'' match, db2))
               else (Json_ok ''Match rejected'' match, db1)))"

text \<open>The guest handler's statements.\<close>

definition select_user_by_token :: "string \<Rightarrow> database \<Rightarrow> user_row list \<times> database" where
  "select_user_by_token token db = (filter (\<lambda>u. tracking_token u = token) (users db), db)"

text \<open>
  \<open>UPDATE job_matches SET reviewed = TRUE, approved = $1, status = $2 WHERE id = $3 AND
  user_id = $4 RETURNING *\<close>
\<close>

definition update_match_review_status ::
  "bool \<Rightarrow> string \<Rightarrow> uuid \<Rightarrow> uuid \<Rightarrow> database \<Rightarrow> job_match list \<times> database" where
  "update_match_review_status approved' status' matchId userId db =
     (let hit = (\<lambda>m. jm_id m = matchId \<and> jm_user_id m = userId);
          upd = (\<lambda>m. m\<lparr>reviewed := True, approved := approved', jm_status := status'\<rparr>)
      in (map upd (filter hit (job_matches db)),
          db\<lparr>job_matches := map (\<lambda>m. if hit m then upd m else m) (job_matches db)\<rparr>))"

text \<open>
  \<open>INSERT INTO application_queue (user_id, job_id, match_id, status)
  VALUES ($1, (SELECT job_id FROM job_matches WHERE id = $2), $2, 'pending')\<close>
\<close>

definition insert_queue_guest :: "uuid \<Rightarrow> uuid \<Rightarrow> database \<Rightarrow> nat \<times> database" where
  "insert_queue_guest userId matchId db =
     (1, db\<lparr>application_queue := application_queue db @
           [\<lparr>aq_id = uuid_generate_v4 (map aq_id (application_queue db)),
             aq_user_id = Some userId,
             aq_job_id = (case filter (\<lambda>m. jm_id m = matchId) (job_matches db) of
                            [] \<Rightarrow> None | m # _ \<Rightarrow> Some (jm_job_id m)),
             aq_match_id = Some matchId,
             aq_status = ''pending'', aq_error_message = None, aq_retry_count = 0,
             aq_processed_at = None\<rparr>]\<rparr>)"

text \<open>\<open>PUT /track/:token/review-match/:matchId\<close>\<close>

definition guest_review_route ::
  "string \<Rightarrow> uuid \<Rightarrow> bool option \<Rightarrow> database \<Rightarrow> response \<times> database" where
  "guest_review_route token matchId body db =
     (case body of
        None \<Rightarrow> (Json_error 400 ''approved must be boolean'', db)
      | Some approved' \<Rightarrow>
          (case query (select_user_by_token token) db of
             (Inl error, db1) \<Rightarrow> (Json_error 500 ''Failed to review match'', db1)
           | (Inr [], db1) \<Rightarrow> (Json_error 404 ''Invalid tracking token'', db1)
           | (Inr (u # others), db1) \<Rightarrow>
               (case query (update_match_review_status approved'
                              (if approved' then ''approved'' else ''rejected'') matchId (usr_id u)) db1 of
                  (Inl error, db2) \<Rightarrow> (Json_error 500 ''Failed to review match'', db2)
                | (Inr [], db2) \<Rightarrow> (Json_error 404 ''Match not found'', db2)
                | (Inr (match # _), db2) \<Rightarrow>
                    if approved' then
                      (case query (insert_queue_guest (usr_id u) matchId) db2 of
                         (Inl error, db3) \<Rightarrow> (Json_error 500 ''Failed to review match'', db3)
                       | (Inr n, db3) \<Rightarrow> (Json_ok ''Match approved - application queued'' match, db3))
                    else (Json_ok ''Match rejected'' match, db2))))"

text \<open>The application-queue rows that reference a match.\<close>

definition queued_for :: "uuid \<Rightarrow> database \<Rightarrow> application_queue_row list" where
  "queued_for matchId db = filter (\<lambda>q. aq_match_id q = Some matchId) (application_queue db)"


section \<open>The scorer that asks a language model\<close>

text \<open>
  The other matching service scores on a scale from 0 to 1 and takes its skill factor from
  a chat-completion call.  Its listings and preferences have their own shape.
\<close>

record legacy_job =
  lj_id :: uuid
  lj_title :: string
  lj_company :: string
  lj_location :: "string option"
  lj_description :: "string option"
  lj_salary :: "string option"
  lj_remote :: bool
  lj_job_type :: "string option"

record preferences =
  pref_remote :: bool
  pref_locations :: "string list option"
  pref_minSalary :: "int option"
  pref_jobTitles :: "string list option"
  pref_employmentTypes :: "string list option"

record ai_reason =
  air_type :: string
  air_description :: string
  air_weight :: rat

record breakdown =
  bd_skills :: rat
  bd_location :: rat
  bd_salary :: rat
  bd_title :: rat
  bd_type :: rat

record ai_score =
  ai_total :: rat
  ai_reasons :: "ai_reason list"
  ai_breakdown :: breakdown

text \<open>
  What comes back from the model for one call: no usable answer (the request failed or the
  content was not JSON), or an object with its \<open>matched\<close> and \<open>score\<close> members.
\<close>

datatype ai_reply = ApiFailure | Reply "string list option" "rat option"

definition matchSkills_ai :: "ai_reply \<Rightarrow> string \<Rightarrow> string \<Rightarrow> string list \<times> rat" where
  "matchSkills_ai reply userProfile jobDescription =
     (case reply of
        ApiFailure \<Rightarrow> ([], 1 / 2)
      | Reply matched sc \<Rightarrow>
          ((case matched of None \<Rightarrow> [] | Some ms \<Rightarrow> ms),
           (case sc of None \<Rightarrow> 1 / 2 | Some x \<Rightarrow> if x = 0 then 1 / 2 else x)))"

fun join_comma :: "string list \<Rightarrow> string" where
  "join_comma [] = []"
| "join_comma [x] = x"
| "join_comma (x # y # ys) = x @ '', '' @ join_comma (y # ys)"

text \<open>\<open>parseFloat(x.toFixed(2))\<close>: two decimals, a half rounding away from zero.\<close>

definition toFixed2 :: "rat \<Rightarrow> rat" where
  "toFixed2 x =
     (if 0 \<le> x then of_int \<lfloor>x * 100 + 1 / 2\<rfloor> / 100
      else - (of_int \<lfloor>- x * 100 + 1 / 2\<rfloor> / 100))"

definition some_opt :: "('a \<Rightarrow> bool) \<Rightarrow> 'a list option \<Rightarrow> bool" where
  "some_opt P xs = (case xs of None \<Rightarrow> False | Some ys \<Rightarrow> list_ex P ys)"

definition calculateMatchScore_ai ::
  "ai_reply \<Rightarrow> string \<Rightarrow> legacy_job \<Rightarrow> preferences \<Rightarrow> ai_score" where
  "calculateMatchScore_ai reply userProfile job prefs =
     (let jobText = lj_title job @ '' '' @ (if truthy (lj_description job) then the (lj_description job) else []);
          (matched, sc) = matchSkills_ai reply userProfile jobText;
          skillScore = sc * (4 / 10);
          reasons1 = (if matched \<noteq> [] then
                        [\<lparr>air_type = ''skill'',
                          air_description = ''Skills match: '' @ join_comma matched,
                          air_weight = skillScore\<rparr>]
                      else []);
          (locationScore, reasons2) =
            (if pref_remote prefs \<and> lj_remote job then
               (25 / 100, reasons1 @ [\<lparr>air_type = ''location'',
                                        air_description = ''Remote work preference match'',
                                        air_weight = 25 / 100\<rparr>])
             else if some_opt (\<lambda>loc. case lj_location job of None \<Rightarrow> False
                                      | Some l \<Rightarrow> str_includes (toLowerCase l) (toLowerCase loc))
                       (pref_locations prefs) then
               (25 / 100, reasons1 @ [\<lparr>air_type = ''location'',
                                        air_description = ''Location match: '' @ the (lj_location job),
                                        air_weight = 25 / 100\<rparr>])
             else if truthy (lj_location job) then (1 / 10, reasons1)
             else (0, reasons1));
          (salaryScore, reasons3) =
            (if truthy (lj_salary job) \<and> pref_minSalary prefs \<noteq> None \<and> pref_minSalary prefs \<noteq> Some 0 then
               (if parseSalary (lj_salary job) \<ge> of_int (the (pref_minSalary prefs)) then
                  (15 / 100, reasons2 @ [\<lparr>air_type = ''salary'',
                                           air_description = ''Salary meets minimum requirement'',
                                           air_weight = 15 / 100\<rparr>])
                else (5 / 100, reasons2))
             else (8 / 100, reasons2));
          (titleScore, reasons4) =
            (if some_opt (\<lambda>t. str_includes (toLowerCase (lj_title job)) (toLowerCase t))
                  (pref_jobTitles prefs) then
               (15 / 100, reasons3 @ [\<lparr>air_type = ''title'',
                                        air_description = ''Title matches preference: '' @ lj_title job,
                                        air_weight = 15 / 100\<rparr>])
             else (5 / 100, reasons3));
          (typeScore, reasons5) =
            (if some_opt (\<lambda>t. lj_job_type job = Some t) (pref_employmentTypes prefs) then
               (5 / 100, reasons4 @ [\<lparr>air_type = ''type'',
                                       air_description = ''Employment type match: '' @ the (lj_job_type job),
                                       air_weight = 5 / 100\<rparr>])
             else (0, reasons4));
          total' = min 1 (skillScore + locationScore + salaryScore + titleScore + typeScore)
      in \<lparr>ai_total = toFixed2 total', ai_reasons = reasons5,
           ai_breakdown = \<lparr>bd_skills = skillScore, bd_location = locationScore,
                            bd_salary = salaryScore, bd_title = titleScore, bd_type = typeScore\<rparr>\<rparr>)"

section \<open>The skill factor as the specification words it\<close>

text \<open>
  The fraction of the candidate's skills found, whatever the letter case, in the listing's
  title and description taken together, scaled to 40; nothing for an empty skill set or an
  empty text.
\<close>

definition spec_listing_text :: "'b job_listing_scheme \<Rightarrow> string" where
  "spec_listing_text job = title job @ (case description job of None \<Rightarrow> [] | Some d \<Rightarrow> '' '' @ d)"

definition spec_skill_overlap :: "string list \<Rightarrow> 'b job_listing_scheme \<Rightarrow> rat" where
  "spec_skill_overlap skills' job =
     (if skills' = [] \<or> spec_listing_text job = [] then 0
      else 40 * rat_of_nat (length (filter (\<lambda>skill. str_includes (toLowerCase (spec_listing_text job))
                                                       (toLowerCase skill)) skills'))
             / rat_of_nat (length skills'))"

section \<open>The application queue\<close>

text \<open>
  The ids the queue gives its jobs: a counter, written in decimal.  They are not UUIDs.
\<close>

datatype queue_id = QueueId nat

text \<open>
  A job of the \<open>applications\<close> queue: its queue-assigned id, its data, the attempts made so
  far and the options it was added with.
\<close>

record bull_job =
  bj_id :: queue_id
  bj_userId :: uuid
  bj_jobListingId :: uuid
  bj_matchId :: uuid
  attemptsMade :: nat
  opt_attempts :: nat
  opt_backoff_delay :: nat

text \<open>What \<open>applyToJob\<close> resolves to: \<open>{success: true, applicationId}\<close> or \<open>{success: false, error}\<close>.\<close>

datatype apply_result = Applied uuid | NotApplied string

text \<open>How the worker's processor ends: with a value, or by throwing an error with a message.\<close>

datatype processor_outcome = Returned apply_result | Threw string

definition message :: "js_error \<Rightarrow> string" where
  "message e = (case e of QueryError \<Rightarrow> ''query failed'' | SyntaxError \<Rightarrow> ''Unexpected token'')"

text \<open>
  A \<open>query\<close> call whose statement ends in \<open>WHERE id = $n\<close> with the queue's job id bound to
  \<open>$n\<close>, as the worker makes them with \<open>job.id\<close>.  The column \<open>id\<close> of \<open>application_queue\<close> is
  a UUID and the queue's ids are decimal counters, which PostgreSQL refuses as input of
  that type: the call rejects and the statement is not run.
\<close>

definition query_by_job_id ::
  "(uuid \<Rightarrow> database \<Rightarrow> 'a \<times> database) \<Rightarrow> queue_id \<Rightarrow> database \<Rightarrow> (js_error + 'a) \<times> database" where
  "query_by_job_id stmt jobId db = (Inl QueryError, db\<lparr>faults := tl (faults db)\<rparr>)"

text \<open>\<open>UPDATE application_queue SET status = $1 WHERE id = $2\<close>\<close>

definition update_queue_status :: "string \<Rightarrow> uuid \<Rightarrow> database \<Rightarrow> nat \<times> database" where
  "update_queue_status status' qid db =
     (length (filter (\<lambda>q. aq_id q = qid) (application_queue db)),
      db\<lparr>application_queue :=
            map (\<lambda>q. if aq_id q = qid then q\<lparr>aq_status := status'\<rparr> else q) (application_queue db)\<rparr>)"

text \<open>\<open>UPDATE application_queue SET status = $1, processed_at = CURRENT_TIMESTAMP WHERE id = $2\<close>\<close>

definition update_queue_processed :: "string \<Rightarrow> uuid \<Rightarrow> database \<Rightarrow> nat \<times> database" where
  "update_queue_processed status' qid db =
     (length (filter (\<lambda>q. aq_id q = qid) (application_queue db)),
      db\<lparr>application_queue :=
            map (\<lambda>q. if aq_id q = qid then q\<lparr>aq_status := status', aq_processed_at := Some (now db)\<rparr> else q)
              (application_queue db)\<rparr>)"

text \<open>
  \<open>UPDATE application_queue SET status = $1, error_message = $2, retry_count = retry_count + 1
  WHERE id = $3\<close>
\<close>

definition update_queue_error :: "string \<Rightarrow> string \<Rightarrow> uuid \<Rightarrow> database \<Rightarrow> nat \<times> database" where
  "update_queue_error status' msg qid db =
     (length (filter (\<lambda>q. aq_id q = qid) (application_queue db)),
      db\<lparr>application_queue :=
            map (\<lambda>q. if aq_id q = qid
                      then q\<lparr>aq_status := status', aq_error_message := Some msg,
                             aq_retry_count := aq_retry_count q + 1\<rparr>
                      else q) (application_queue db)\<rparr>)"

definition insert_notification :: "uuid \<Rightarrow> uuid \<Rightarrow> database \<Rightarrow> nat \<times> database" where
  "insert_notification userId applicationId db =
     (1, db\<lparr>notifications := notifications db @
           [\<lparr>nt_user_id = userId, nt_type = ''application_sent'', nt_entity_id = applicationId\<rparr>]\<rparr>)"

text \<open>
  The processor given to the worker, run on one job with the outcome of \<open>applyToJob\<close> for
  this attempt.  The first component of \<open>attempt\<close> is the \<open>try\<close> block: \<open>Inl\<close> carries the
  message of the error that reaches \<open>catch\<close>.  An error of the \<open>UPDATE\<close> inside \<open>catch\<close>
  leaves the processor as it is.
\<close>

definition processor :: "bull_job \<Rightarrow> apply_result \<Rightarrow> database \<Rightarrow> processor_outcome \<times> database" where
  "processor job result db =
     (let attempt =
            (case query_by_job_id (update_queue_status ''processing'') (bj_id job) db of
               (Inl e, db1) \<Rightarrow> (Inl (message e), db1)
             | (Inr n, db1) \<Rightarrow>
                 (case result of
                    Applied applicationId \<Rightarrow>
                      (case query_by_job_id (update_queue_processed ''completed'') (bj_id job) db1 of
                         (Inl e, db2) \<Rightarrow> (Inl (message e), db2)
                       | (Inr n, db2) \<Rightarrow>
                           (case query (insert_notification (bj_userId job) applicationId) db2 of
                              (Inl e, db3) \<Rightarrow> (Inl (message e), db3)
                            | (Inr n, db3) \<Rightarrow> (Inr applicationId, db3)))
                  | NotApplied err \<Rightarrow> (Inl err, db1)))
      in case attempt of
           (Inr applicationId, db') \<Rightarrow> (Returned (Applied applicationId), db')
         | (Inl msg, db') \<Rightarrow>
             (case query_by_job_id (update_queue_error ''failed'' msg) (bj_id job) db' of
                (Inl e, db'') \<Rightarrow> (Threw (message e), db'')
              | (Inr n, db'') \<Rightarrow>
                  if attemptsMade job < 3 then (Threw msg, db'')
                  else (Returned (NotApplied msg), db'')))"

text \<open>
  \<open>queueApplication\<close>, on the jobs the queue has been given so far and the database.  The
  job is handed to \<open>applicationQueue.add\<close> with \<open>attempts: 3\<close> and an exponential backoff of
  5000 ms and takes the next id of the queue; then the queue record is inserted.  When
  that insert rejects the error is logged and thrown again, the job staying in the
  queue.
\<close>

definition queueApplication ::
  "uuid \<Rightarrow> uuid \<Rightarrow> uuid \<Rightarrow> bull_job list \<times> database
     \<Rightarrow> (js_error + bull_job) \<times> bull_job list \<times> database" where
  "queueApplication userId jobListingId matchId st =
     (let (jobs, db) = st;
          job = \<lparr>bj_id = QueueId (Suc (length jobs)), bj_userId = userId,
                 bj_jobListingId = jobListingId, bj_matchId = matchId, attemptsMade = 0,
                 opt_attempts = 3, opt_backoff_delay = 5000\<rparr>
      in case insert_queue_for_match matchId db of
           (Inl error, db') \<Rightarrow> (Inl error, jobs @ [job], db')
         | (Inr n, db') \<Rightarrow> (Inr job, jobs @ [job], db'))"

section \<open>Example data\<close>

definition ex_profile :: user_profile where
  "ex_profile = \<lparr>profile_id = 1, user_id = 7,
     skills = Some (Parsed [''python'', ''react'']),
     desired_job_titles = Some (Parsed [''engineer'']),
     remote_preference = Some ''remote'', salary_min = None, salary_max = None\<rparr>"

definition ex_listing :: job_listing where
  "ex_listing = \<lparr>listing_id = 3, title = ''Python Developer'', company = ''Acme'', location = None,
     description = Some ''Backend role'', salary_range = None, remote_type = Some ''remote'',
     job_type = Some ''full_time'', is_active = True, scraped_at = 1000\<rparr>"

definition ex_profile_floor :: user_profile where
  "ex_profile_floor = ex_profile\<lparr>salary_min := Some 50000\<rparr>"

definition ex_profile_other :: user_profile where
  "ex_profile_other = \<lparr>profile_id = 2, user_id = 8, skills = None, desired_job_titles = None,
     remote_preference = Some ''remote'', salary_min = None, salary_max = Some 90000\<rparr>"

definition ex_listing_other :: job_listing where
  "ex_listing_other = \<lparr>listing_id = 4, title = ''Python Developer'', company = ''Globex'',
     location = Some ''Berlin'', description = Some ''Backend role'', salary_range = None,
     remote_type = Some ''remote'', job_type = Some ''full_time'', is_active = False,
     scraped_at = 5\<rparr>"

definition ex_legacy_job :: legacy_job where
  "ex_legacy_job = \<lparr>lj_id = 1, lj_title = ''Python Engineer'', lj_company = ''Acme'',
     lj_location = Some ''Berlin'', lj_description = None, lj_salary = None, lj_remote = False,
     lj_job_type = None\<rparr>"

definition ex_preferences :: preferences where
  "ex_preferences = \<lparr>pref_remote = False, pref_locations = None, pref_minSalary = None,
     pref_jobTitles = None, pref_employmentTypes = None\<rparr>"

section \<open>Notions used in the statements\<close>

text \<open>The table constraint \<open>UNIQUE(user_id, job_id)\<close> of \<open>job_matches\<close>.\<close>

definition unique_user_job :: "database \<Rightarrow> bool" where
  "unique_user_job db = distinct (map (\<lambda>m. (jm_user_id m, jm_job_id m)) (job_matches db))"

text \<open>The match rows of one (user, listing) pair.\<close>

definition rows_for :: "uuid \<Rightarrow> uuid \<Rightarrow> database \<Rightarrow> job_match list" where
  "rows_for userId jobId db =
     filter (\<lambda>m. jm_user_id m = userId \<and> jm_job_id m = jobId) (job_matches db)"

text \<open>The insert statement run once for each (score, reasons) of a list, on one pair.\<close>

fun record_all :: "uuid \<Rightarrow> uuid \<Rightarrow> (int \<times> reason list) list \<Rightarrow> database \<Rightarrow> database" where
  "record_all userId jobId [] db = db"
| "record_all userId jobId (c # cs) db =
     record_all userId jobId cs (snd (insert_job_match userId jobId (fst c) (snd c) db))"

text \<open>The state after one \<open>query\<close> call has taken its entry of \<open>faults\<close>.\<close>

definition after_call :: "database \<Rightarrow> database" where
  "after_call db = db\<lparr>faults := tl (faults db)\<rparr>"

definition is_ok :: "response \<Rightarrow> bool" where
  "is_ok r = (case r of Json_ok msg m \<Rightarrow> True | Json_error code msg \<Rightarrow> False)"

definition ex_listing_good :: job_listing where
  "ex_listing_good = \<lparr>listing_id = 5, title = ''Senior Python Engineer'', company = ''Initech'',
     location = None, description = Some ''We use Python and React daily'', salary_range = None,
     remote_type = Some ''remote'', job_type = Some ''full_time'', is_active = True,
     scraped_at = 2000\<rparr>"

definition ex_listing_good2 :: job_listing where
  "ex_listing_good2 = ex_listing_good\<lparr>listing_id := 6, company := ''Hooli'', scraped_at := 1500\<rparr>"

definition ex_listing_poor :: job_listing where
  "ex_listing_poor = \<lparr>listing_id = 9, title = ''Accountant'', company = ''Acme'',
     location = None, description = Some ''Bookkeeping'', salary_range = None,
     remote_type = Some ''onsite'', job_type = Some ''contract'', is_active = True,
     scraped_at = 2500\<rparr>"

definition ex_db :: database where
  "ex_db = \<lparr>users = [\<lparr>usr_id = 7, tracking_token = ''tok-7''\<rparr>],
     user_profiles = [ex_profile],
     job_listings = [ex_listing_good, ex_listing_poor, ex_listing_good2],
     job_matches = [], application_queue = [], notifications = [], now = 3000, faults = []\<rparr>"

definition ex_match_reviewed :: job_match where
  "ex_match_reviewed = \<lparr>jm_id = 1, jm_user_id = 7, jm_job_id = 5, match_score = 95,
     match_reasons = [], jm_status = ''approved'', reviewed = True, approved = True,
     jm_created_at = 2900\<rparr>"

definition ex_match_pending :: job_match where
  "ex_match_pending = \<lparr>jm_id = 2, jm_user_id = 7, jm_job_id = 6, match_score = 80,
     match_reasons = [], jm_status = ''pending'', reviewed = False, approved = False,
     jm_created_at = 2950\<rparr>"

definition ex_db_reviewed :: database where
  "ex_db_reviewed = ex_db\<lparr>job_matches := [ex_match_reviewed, ex_match_pending]\<rparr>"

definition ex_bull_job :: bull_job where
  "ex_bull_job = \<lparr>bj_id = QueueId 1, bj_userId = 7, bj_jobListingId = 5, bj_matchId = 2,
     attemptsMade = 0, opt_attempts = 3, opt_backoff_delay = 5000\<rparr>"

text \<open>The coming \<open>query\<close> call rejects.\<close>

definition rejects :: "database \<Rightarrow> bool" where
  "rejects db = (case faults db of [] \<Rightarrow> False | bad # later \<Rightarrow> bad)"

text \<open>
  A number written with comma-grouped thousands: the leading digits, then each group after
  a comma, as in \<open>85,000\<close> (\<open>grouped ''85'' [''000'']\<close>).  It is well grouped when there are
  one to three leading digits and every group has exactly three digits.
\<close>

definition grouped :: "string \<Rightarrow> string list \<Rightarrow> string" where
  "grouped lead groups = lead @ concat (map (\<lambda>g. CHR '','' # g) groups)"

definition well_grouped :: "string \<Rightarrow> string list \<Rightarrow> bool" where
  "well_grouped lead groups =
     (lead \<noteq> [] \<and> length lead \<le> 3 \<and> list_all isDigit lead
      \<and> list_all (\<lambda>g. length g = 3 \<and> list_all isDigit g) groups)"

text \<open>What may follow such a number: the end of the text, or a character that is neither a
  digit nor a comma nor a full stop.\<close>

definition ends_number :: "string \<Rightarrow> bool" where
  "ends_number post =
     (case post of [] \<Rightarrow> True | c # r \<Rightarrow> \<not> isDigit c \<and> c \<noteq> CHR '','' \<and> c \<noteq> CHR ''.'')"

text \<open>The example database after the guest has approved match 2: one \<open>pending\<close> queue row for it.\<close>

definition ex_db_approved :: database where
  "ex_db_approved = snd (guest_review_route ''tok-7'' 2 (Some True) ex_db_reviewed)"

section \<open>Properties\<close>

subsection \<open>Rounding\<close>

lemma Math_round_bounds:
  assumes "0 \<le> x" "x \<le> of_int m"
  shows "0 \<le> Math_round x \<and> Math_round x \<le> m"
proof -
  have "0 \<le> \<lfloor>x + 1 / 2\<rfloor>" using assms(1) by (simp add: zero_le_floor)
  moreover have "\<lfloor>x + 1 / 2\<rfloor> \<le> m"
  proof -
    have "x + 1 / 2 < of_int (m + 1)" using assms(2) by simp
    then have "\<lfloor>x + 1 / 2\<rfloor> < m + 1" by (simp only: floor_less_iff)
    then show ?thesis by simp
  qed
  ultimately show ?thesis by (simp add: Math_round_def)
qed

lemma Math_round_of_int: "Math_round (of_int i) = i"
  by (simp add: Math_round_def) linarith

lemma Math_round_fraction:
  assumes "0 < n"
  shows "Math_round (rat_of_nat k / rat_of_nat n * 40) = (80 * int k + int n) div (2 * int n)"
proof -
  have n0: "rat_of_nat n \<noteq> 0" using assms by simp
  have "rat_of_nat k / rat_of_nat n * 40 + 1 / 2 = of_int (80 * int k + int n) / of_int (2 * int n)"
    using n0 by (simp add: field_simps)
  then have "Math_round (rat_of_nat k / rat_of_nat n * 40)
      = \<lfloor>(of_int (80 * int k + int n) :: rat) / of_int (2 * int n)\<rfloor>"
    by (simp only: Math_round_def)
  also have "\<dots> = (80 * int k + int n) div (2 * int n)"
    by (rule floor_divide_of_int_eq)
  finally show ?thesis .
qed

lemma Math_round_near: "\<bar>of_int (Math_round x) - x\<bar> \<le> 1 / 2"
proof -
  have "of_int \<lfloor>x + 1 / 2\<rfloor> \<le> x + 1 / 2" by (rule of_int_floor_le)
  moreover have "x + 1 / 2 < of_int \<lfloor>x + 1 / 2\<rfloor> + 1"
    by (rule floor_correct[THEN conjunct2, simplified])
  ultimately show ?thesis unfolding Math_round_def by linarith
qed

subsection \<open>The range of each factor\<close>

lemma matchSkills_range: "0 \<le> matchSkills us jt \<and> matchSkills us jt \<le> 40"
proof (cases "us = [] \<or> \<not> truthy jt")
  case True
  then show ?thesis by (auto simp: matchSkills_def)
next
  case False
  define k where "k = length (filter (\<lambda>skill. str_includes (toLowerCase (the jt)) (toLowerCase skill)) us)"
  define n where "n = length us"
  have kn: "k \<le> n" "0 < n" using False by (auto simp: k_def n_def)
  have eq: "matchSkills us jt = Math_round (rat_of_nat k / rat_of_nat n * 40)"
    using False by (simp add: matchSkills_def k_def n_def Let_def)
  have "rat_of_nat k / rat_of_nat n \<le> 1" using kn by (simp add: divide_le_eq_1)
  then have "rat_of_nat k / rat_of_nat n * 40 \<le> 1 * 40" by (rule mult_right_mono) simp
  then have up: "rat_of_nat k / rat_of_nat n * 40 \<le> of_int 40" by simp
  have lo: "0 \<le> rat_of_nat k / rat_of_nat n * 40" by simp
  from Math_round_bounds[OF lo up] eq show ?thesis by simp
qed

lemma matchTitle_range: "matchTitle ts jt = 5 \<or> matchTitle ts jt = 25"
  by (simp add: matchTitle_def Let_def)

lemma matchLocation_range: "matchLocation p j \<in> {5, 10, 20}"
  by (simp add: matchLocation_def Let_def)

lemma matchSalary_range: "matchSalary p sr \<in> {0, 5, 10}"
  by (simp add: matchSalary_def Let_def)

lemma matchJobType_range: "matchJobType p jt \<in> {3, 5}"
  by (simp add: matchJobType_def)

lemma sum_never_clamped:
  "matchSkills s jt + matchTitle d tt + matchLocation p j + matchSalary p sr + matchJobType p ty \<le> 100"
  using matchSkills_range[of s jt] matchTitle_range[of d tt] matchLocation_range[of p j]
    matchSalary_range[of p sr] matchJobType_range[of p ty] by auto

lemma total_eq:
  "total (calculateMatchScore p s d j) =
     min 100 (matchSkills s (js_or (description j) (Some (title j))) + matchTitle d (Some (title j))
       + matchLocation p j + matchSalary p (salary_range j) + matchJobType p (job_type j))"
  by (simp add: calculateMatchScore_def Let_def Math_round_of_int)

subsection \<open>C7: the total is within 0 and 100\<close>

text \<open>
  C7.  For every profile, skill list, list of desired titles and listing, the total that
  \<open>calculateMatchScore\<close> returns is an integer between 0 and 100.
\<close>

theorem total_in_range:
  "0 \<le> total (calculateMatchScore p s d j) \<and> total (calculateMatchScore p s d j) \<le> 100"
proof -
  have a: "0 \<le> matchSkills s (js_or (description j) (Some (title j)))"
    using matchSkills_range by blast
  have b: "0 \<le> matchTitle d (Some (title j))" using matchTitle_range[of d "Some (title j)"] by auto
  have c: "0 \<le> matchLocation p j" using matchLocation_range[of p j] by auto
  have e: "0 \<le> matchSalary p (salary_range j)" using matchSalary_range[of p "salary_range j"] by auto
  have f: "0 \<le> matchJobType p (job_type j)" using matchJobType_range[of p "job_type j"] by auto
  show ?thesis unfolding total_eq using a b c e f by simp
qed

theorem total_in_range_witness:
  "0 \<le> total (calculateMatchScore ex_profile [''python'', ''react''] [''engineer''] ex_listing)
   \<and> total (calculateMatchScore ex_profile [''python'', ''react''] [''engineer''] ex_listing) \<le> 100"
  by (rule total_in_range)

subsection \<open>C8: the skill factor\<close>

lemma js_or_description:
  "js_or (description job) (Some (title job)) =
     Some (if truthy (description job) then the (description job) else title job)"
  by (cases "description job") (auto simp: js_or_def truthy_def)

text \<open>
  C8, as the code has it.  The text searched is the listing's description, or its title
  when the description is absent or empty, never both.  With \<open>k\<close> of the \<open>n\<close> skills
  occurring in that text (letter case ignored), the factor is \<open>40 k / n\<close> rounded to the
  nearest integer, a half rounding up; so it is within one half of the linear value.  An
  empty skill list or an empty text gives 0.
\<close>

theorem skill_factor_rounded:
  "matchSkills skills' (js_or (description job) (Some (title job))) =
     (let jobText = (if truthy (description job) then the (description job) else title job);
          k = length (filter (\<lambda>s. str_includes (toLowerCase jobText) (toLowerCase s)) skills');
          n = length skills'
      in if n = 0 \<or> jobText = [] then 0 else (80 * int k + int n) div (2 * int n))
   \<and> \<bar>rat_of_int (matchSkills skills' (js_or (description job) (Some (title job))))
        - (let jobText = (if truthy (description job) then the (description job) else title job);
               k = length (filter (\<lambda>s. str_includes (toLowerCase jobText) (toLowerCase s)) skills');
               n = length skills'
           in if n = 0 \<or> jobText = [] then 0 else 40 * rat_of_nat k / rat_of_nat n)\<bar> \<le> 1 / 2"
proof -
  define jobText where "jobText = (if truthy (description job) then the (description job) else title job)"
  define k where "k = length (filter (\<lambda>s. str_includes (toLowerCase jobText) (toLowerCase s)) skills')"
  define n where "n = length skills'"
  show ?thesis
  proof (cases "n = 0 \<or> jobText = []")
    case True
    then have "matchSkills skills' (Some jobText) = 0"
      by (auto simp: matchSkills_def n_def truthy_def)
    with True show ?thesis
      unfolding js_or_description Let_def jobText_def[symmetric] n_def[symmetric] by simp
  next
    case False
    then have n: "0 < n" and ne: "skills' \<noteq> []" "jobText \<noteq> []" by (auto simp: n_def)
    have eq: "matchSkills skills' (Some jobText) = Math_round (rat_of_nat k / rat_of_nat n * 40)"
      using ne by (simp add: matchSkills_def truthy_def k_def n_def Let_def)
    have a: "matchSkills skills' (Some jobText) = (80 * int k + int n) div (2 * int n)"
      unfolding eq by (rule Math_round_fraction[OF n])
    have b: "\<bar>rat_of_int (matchSkills skills' (Some jobText)) - 40 * rat_of_nat k / rat_of_nat n\<bar> \<le> 1 / 2"
      unfolding eq using Math_round_near[of "rat_of_nat k / rat_of_nat n * 40"] by (simp add: mult.commute)
    from a b False show ?thesis
      unfolding js_or_description Let_def jobText_def[symmetric] k_def[symmetric] n_def[symmetric] by simp
  qed
qed

theorem skill_factor_rounded_witness:
  "matchSkills [''python'', ''react'', ''sql''] (js_or (description ex_listing) (Some (title ex_listing))) = 0
   \<and> matchSkills [''backend'', ''react'', ''sql''] (js_or (description ex_listing) (Some (title ex_listing))) = 13"
proof -
  have a: "(let jobText = (if truthy (description ex_listing) then the (description ex_listing) else title ex_listing);
          k = length (filter (\<lambda>s. str_includes (toLowerCase jobText) (toLowerCase s)) [''python'', ''react'', ''sql'']);
          n = length [''python'', ''react'', ''sql'']
      in if n = 0 \<or> jobText = [] then 0 else (80 * int k + int n) div (2 * int n)) = 0"
    by code_simp
  have b: "(let jobText = (if truthy (description ex_listing) then the (description ex_listing) else title ex_listing);
          k = length (filter (\<lambda>s. str_includes (toLowerCase jobText) (toLowerCase s)) [''backend'', ''react'', ''sql'']);
          n = length [''backend'', ''react'', ''sql'']
      in if n = 0 \<or> jobText = [] then 0 else (80 * int k + int n) div (2 * int n)) = 13"
    by code_simp
  show ?thesis
    using skill_factor_rounded[of "[''python'', ''react'', ''sql'']" ex_listing, THEN conjunct1]
      skill_factor_rounded[of "[''backend'', ''react'', ''sql'']" ex_listing, THEN conjunct1]
    unfolding a b by simp
qed

text \<open>
  The factor is not the linear fraction over title and description.  A skill named only in
  the title is not counted when there is a description: the factor is 0 where the
  fraction over title and description gives 40.  And one skill of three gives 13, not
  40/3.
\<close>

theorem skill_factor_counterexample:
  "rat_of_int (matchSkills [''python''] (js_or (description ex_listing) (Some (title ex_listing)))) = 0
   \<and> spec_skill_overlap [''python''] ex_listing = 40
   \<and> rat_of_int (matchSkills [''backend'', ''react'', ''sql'']
        (js_or (description ex_listing) (Some (title ex_listing)))) = 13
   \<and> spec_skill_overlap [''backend'', ''react'', ''sql''] ex_listing = 40 / 3"
  by code_simp

subsection \<open>C9: the salary factor\<close>

lemma salary_match_None: "salary_match s = None \<longleftrightarrow> list_all (\<lambda>c. \<not> isDigit c) s"
proof -
  have "dropWhile (\<lambda>c. \<not> isDigit c) s = [] \<longleftrightarrow> list_all (\<lambda>c. \<not> isDigit c) s"
    by (simp add: dropWhile_eq_Nil_conv list_all_iff)
  then show ?thesis
    by (simp add: salary_match_def Let_def split: prod.splits)
qed

lemma parseSalary_no_digit:
  assumes "list_all (\<lambda>c. \<not> isDigit c) s"
  shows "parseSalary (Some s) = 0"
  using assms salary_match_None[of s] by (simp add: parseSalary_def)

lemma not_digit_comma: "\<not> isDigit (CHR '','')" "\<not> isDigit (CHR ''.'')"
  by (simp_all add: isDigit_def)

lemma thousands_end:
  assumes "ends_number post"
  shows "thousands post = ([], post)"
proof (cases post rule: thousands.cases)
  case (1 a b c d rest)
  then show ?thesis using assms by (simp add: ends_number_def)
next
  case (2 a b c)
  then show ?thesis using assms by (simp add: ends_number_def)
qed simp_all

lemma thousands_groups:
  assumes "list_all (\<lambda>g. length g = 3 \<and> list_all isDigit g) groups" and "ends_number post"
  shows "thousands (concat (map (\<lambda>g. CHR '','' # g) groups) @ post)
           = (concat (map (\<lambda>g. CHR '','' # g) groups), post)"
  using assms(1)
proof (induction groups)
  case Nil
  then show ?case by (simp add: thousands_end[OF assms(2)])
next
  case (Cons g gs)
  then obtain a b c where g: "g = [a, b, c]" and d: "isDigit a" "isDigit b" "isDigit c"
    by (cases g; cases "tl g"; cases "tl (tl g)"; cases "tl (tl (tl g))") auto
  show ?case using Cons d by (simp add: g)
qed

lemma fraction_end:
  assumes "ends_number post"
  shows "fraction post = []"
  using assms by (auto simp: fraction_def ends_number_def split: list.splits)

lemma takeWhile_lead:
  assumes "list_all isDigit lead" and "length lead \<le> 3" and "r = [] \<or> \<not> isDigit (hd r)"
  shows "takeWhile isDigit (take 3 (lead @ r)) = lead"
proof -
  have "take 3 (lead @ r) = lead @ take (3 - length lead) r" using assms(2) by simp
  moreover have "takeWhile isDigit (take (3 - length lead) r) = []"
    using assms(3) by (cases r; cases "3 - length lead") auto
  ultimately show ?thesis using assms(1) by (simp add: takeWhile_append2 list_all_iff)
qed

lemma salary_match_grouped:
  assumes "list_all (\<lambda>c. \<not> isDigit c) pre" and "well_grouped lead groups" and "ends_number post"
  shows "salary_match (pre @ grouped lead groups @ post) = Some (grouped lead groups)"
proof -
  let ?G = "concat (map (\<lambda>g. CHR '','' # g) groups)"
  have wl: "lead \<noteq> []" "length lead \<le> 3" "list_all isDigit lead"
    and wg: "list_all (\<lambda>g. length g = 3 \<and> list_all isDigit g) groups"
    using assms(2) by (simp_all add: well_grouped_def)
  have hd: "isDigit (hd lead)" using wl by (cases lead) auto
  have r: "?G @ post = [] \<or> \<not> isDigit (hd (?G @ post))"
  proof (cases groups)
    case Nil
    then show ?thesis using assms(3) by (cases post) (auto simp: ends_number_def)
  next
    case (Cons g gs)
    then show ?thesis by (simp add: not_digit_comma)
  qed
  have dw: "dropWhile (\<lambda>c. \<not> isDigit c) (pre @ lead @ ?G @ post) = lead @ ?G @ post"
  proof -
    have "dropWhile (\<lambda>c. \<not> isDigit c) (pre @ lead @ ?G @ post)
            = dropWhile (\<lambda>c. \<not> isDigit c) (lead @ ?G @ post)"
      using assms(1) by (simp add: dropWhile_append2 list_all_iff)
    also have "\<dots> = lead @ ?G @ post" using wl(1) hd by (cases lead) auto
    finally show ?thesis .
  qed
  have tw: "takeWhile isDigit (take 3 (lead @ ?G @ post)) = lead"
    by (rule takeWhile_lead[OF wl(3) wl(2) r])
  have th: "thousands (?G @ post) = (?G, post)" by (rule thousands_groups[OF wg assms(3)])
  have s: "dropWhile (\<lambda>c. \<not> isDigit c) (pre @ grouped lead groups @ post) = lead @ ?G @ post"
    using dw by (simp add: grouped_def)
  have ne: "lead @ ?G @ post \<noteq> []" using wl(1) by simp
  have dr: "drop (length lead) (lead @ ?G @ post) = ?G @ post" by simp
  have "salary_match (pre @ grouped lead groups @ post) = Some (lead @ ?G @ fraction post)"
    unfolding salary_match_def Let_def s tw dr th using ne by simp
  then show ?thesis by (simp add: grouped_def fraction_end[OF assms(3)])
qed

lemma digits_no_comma:
  assumes "list_all isDigit ds"
  shows "filter (\<lambda>c. c \<noteq> CHR '','') ds = ds"
  using assms not_digit_comma(1) by (induction ds) auto

lemma filter_grouped:
  assumes "well_grouped lead groups"
  shows "filter (\<lambda>c. c \<noteq> CHR '','') (grouped lead groups) = lead @ concat groups"
proof -
  have wg: "list_all (\<lambda>g. length g = 3 \<and> list_all isDigit g) groups"
    and wl: "list_all isDigit lead"
    using assms by (simp_all add: well_grouped_def)
  have "filter (\<lambda>c. c \<noteq> CHR '','') (concat (map (\<lambda>g. CHR '','' # g) groups)) = concat groups"
    using wg by (induction groups) (simp_all add: digits_no_comma)
  then show ?thesis using wl by (simp add: grouped_def digits_no_comma)
qed

lemma parseFloat_digits:
  assumes "list_all isDigit ds"
  shows "parseFloat ds = rat_of_int (digits_val ds)"
proof -
  have tw: "takeWhile isDigit ds = ds" using assms by (simp add: list_all_iff)
  show ?thesis unfolding parseFloat_def Let_def tw by (simp add: digits_val_def)
qed

lemma parseSalary_grouped:
  assumes "list_all (\<lambda>c. \<not> isDigit c) pre" and "well_grouped lead groups" and "ends_number post"
  shows "parseSalary (Some (pre @ grouped lead groups @ post)) = rat_of_int (digits_val (lead @ concat groups))"
proof -
  have ne: "truthy (Some (pre @ grouped lead groups @ post))"
    using assms(2) by (simp add: truthy_def grouped_def well_grouped_def)
  have dig: "list_all isDigit (lead @ concat groups)"
    using assms(2) by (auto simp: well_grouped_def list_all_iff)
  show ?thesis
    using ne by (simp add: parseSalary_def salary_match_grouped[OF assms] filter_grouped[OF assms(2)]
        parseFloat_digits[OF dig])
qed

text \<open>
  Left out of the statement below: a number written without commas.  The pattern's first
  group takes at most three digits and every further group exactly three, so of five
  digits in a row only the first three are read.
\<close>

lemma parseSalary_ungrouped: "parseSalary (Some ''50000'') = 500 \<and> parseSalary (Some ''50,000'') = 50000"
  by code_simp

text \<open>
  C9, as the code has it.  A profile without a salary floor (none, or 0) gets the neutral
  5.  For a profile with a salary floor \<open>f > 0\<close>: an absent or empty salary text gives the
  neutral 5; a non-empty text without any digit gives 0, the same as a salary below the
  floor; and a text whose first number is written with one to three digits or with
  comma-grouped thousands, as in \<open>$85,000 a year\<close>, and is followed by the end of the text
  or by a character other than a digit, a comma and a full stop, gives 10 when that
  number is at least the floor and 0 when it is less.
\<close>

theorem salary_factor:
  fixes profile :: "'a user_profile_scheme"
  shows
  "(salary_min profile = None \<or> salary_min profile = Some 0 \<longrightarrow> matchSalary profile salaryRange = 5)
   \<and> (\<forall>f. salary_min profile = Some f \<and> 0 < f \<longrightarrow>
          (\<not> truthy salaryRange \<longrightarrow> matchSalary profile salaryRange = 5)
        \<and> (\<forall>s. salaryRange = Some s \<and> s \<noteq> [] \<and> list_all (\<lambda>c. \<not> isDigit c) s \<longrightarrow>
               matchSalary profile salaryRange = 0)
        \<and> (\<forall>pre lead groups post.
               salaryRange = Some (pre @ grouped lead groups @ post)
               \<and> list_all (\<lambda>c. \<not> isDigit c) pre \<and> well_grouped lead groups \<and> ends_number post \<longrightarrow>
               matchSalary profile salaryRange
                 = (if f \<le> digits_val (lead @ concat groups) then 10 else 0)))"
proof (intro conjI allI impI)
  assume "salary_min profile = None \<or> salary_min profile = Some 0"
  then show "matchSalary profile salaryRange = 5" by (auto simp: matchSalary_def)
next
  fix f assume "salary_min profile = Some f \<and> 0 < f" and "\<not> truthy salaryRange"
  then show "matchSalary profile salaryRange = 5" by (simp add: matchSalary_def)
next
  fix f s
  assume f: "salary_min profile = Some f \<and> 0 < f"
    and s: "salaryRange = Some s \<and> s \<noteq> [] \<and> list_all (\<lambda>c. \<not> isDigit c) s"
  have "parseSalary salaryRange = 0"
    using s by (simp add: parseSalary_no_digit list_all_iff)
  then show "matchSalary profile salaryRange = 0"
    using f s by (simp add: matchSalary_def truthy_def)
next
  fix f pre lead groups post
  assume f: "salary_min profile = Some f \<and> 0 < f"
    and s: "salaryRange = Some (pre @ grouped lead groups @ post)
               \<and> list_all (\<lambda>c. \<not> isDigit c) pre \<and> well_grouped lead groups \<and> ends_number post"
  have p: "parseSalary salaryRange = rat_of_int (digits_val (lead @ concat groups))"
    using s by (simp add: parseSalary_grouped)
  have t: "truthy salaryRange"
    using s by (simp add: truthy_def grouped_def well_grouped_def)
  show "matchSalary profile salaryRange = (if f \<le> digits_val (lead @ concat groups) then 10 else 0)"
    using f t by (simp add: matchSalary_def p)
qed

theorem salary_factor_witness:
  "matchSalary ex_profile (Some ''$40,000'') = 5
   \<and> matchSalary ex_profile_floor None = 5
   \<and> matchSalary ex_profile_floor (Some ''Competitive'') = 0
   \<and> matchSalary ex_profile_floor (Some ''$60,000 - $80,000'') = 10
   \<and> matchSalary ex_profile_floor (Some ''up to 45,500 a year'') = 0
   \<and> matchSalary ex_profile_floor (Some ''USD 1,250,000'') = 10"
proof -
  have e: "salary_min ex_profile = None" by (simp add: ex_profile_def)
  have h: "salary_min ex_profile_floor = Some 50000 \<and> (0::int) < 50000"
    by (simp add: ex_profile_floor_def)
  have a: "\<not> truthy None" by (simp add: truthy_def)
  have b: "''Competitive'' \<noteq> [] \<and> list_all (\<lambda>c. \<not> isDigit c) ''Competitive''"
    by code_simp
  have c: "Some ''$60,000 - $80,000'' = Some (''$'' @ grouped ''60'' [''000''] @ '' - $80,000'')
           \<and> list_all (\<lambda>c. \<not> isDigit c) ''$'' \<and> well_grouped ''60'' [''000'']
           \<and> ends_number '' - $80,000''"
    by code_simp
  have c': "(50000::int) \<le> digits_val (''60'' @ concat [''000''])" by code_simp
  have d: "Some ''up to 45,500 a year'' = Some (''up to '' @ grouped ''45'' [''500''] @ '' a year'')
           \<and> list_all (\<lambda>c. \<not> isDigit c) ''up to '' \<and> well_grouped ''45'' [''500'']
           \<and> ends_number '' a year''"
    by code_simp
  have d': "\<not> (50000::int) \<le> digits_val (''45'' @ concat [''500''])" by code_simp
  have g: "Some ''USD 1,250,000'' = Some (''USD '' @ grouped ''1'' [''250'', ''000''] @ [])
           \<and> list_all (\<lambda>c. \<not> isDigit c) ''USD '' \<and> well_grouped ''1'' [''250'', ''000'']
           \<and> ends_number []"
    by code_simp
  have g': "(50000::int) \<le> digits_val (''1'' @ concat [''250'', ''000''])" by code_simp
  have 1: "matchSalary ex_profile (Some ''$40,000'') = 5"
    using salary_factor[of ex_profile "Some ''$40,000''"] e by blast
  have 2: "matchSalary ex_profile_floor None = 5"
    using salary_factor[of ex_profile_floor None] h a by blast
  have 3: "matchSalary ex_profile_floor (Some ''Competitive'') = 0"
    using salary_factor[of ex_profile_floor "Some ''Competitive''"] h b by blast
  have 4: "matchSalary ex_profile_floor (Some ''$60,000 - $80,000'')
             = (if (50000::int) \<le> digits_val (''60'' @ concat [''000'']) then 10 else 0)"
    using salary_factor[of ex_profile_floor "Some ''$60,000 - $80,000''"] h c by blast
  have 5: "matchSalary ex_profile_floor (Some ''up to 45,500 a year'')
             = (if (50000::int) \<le> digits_val (''45'' @ concat [''500'']) then 10 else 0)"
    using salary_factor[of ex_profile_floor "Some ''up to 45,500 a year''"] h d by blast
  have 6: "matchSalary ex_profile_floor (Some ''USD 1,250,000'')
             = (if (50000::int) \<le> digits_val (''1'' @ concat [''250'', ''000'']) then 10 else 0)"
    using salary_factor[of ex_profile_floor "Some ''USD 1,250,000''"] h g by blast
  show ?thesis
    unfolding 1 2 3 4 5 6 using c' d' g' by simp
qed

text \<open>
  A salary text without a number is scored like a salary below the floor, not at the
  neutral mid-weight.
\<close>

theorem salary_unparseable_counterexample:
  "salary_min ex_profile_floor = Some 50000
   \<and> salary_match ''Competitive'' = None
   \<and> matchSalary ex_profile_floor (Some ''Competitive'') = 0
   \<and> matchSalary ex_profile_floor (Some ''$40,000'') = 0"
  by code_simp

subsection \<open>C5: what the score depends on\<close>

text \<open>
  C5, for the keyword scorer.  Its result is a function of the skill list, the desired
  titles, the profile's remote preference and salary floor, and the listing's title,
  description, remote type, salary text and job type: two calls that agree on these
  return the same total and the same reasons, whatever else differs.
\<close>

theorem score_determined_by_inputs:
  assumes "remote_preference p = remote_preference p'" and "salary_min p = salary_min p'"
    and "title j = title j'" and "description j = description j'"
    and "remote_type j = remote_type j'" and "salary_range j = salary_range j'"
    and "job_type j = job_type j'"
  shows "calculateMatchScore p s d j = calculateMatchScore p' s d j'"
proof -
  have l: "matchLocation p j = matchLocation p' j'"
    using assms by (simp add: matchLocation_def)
  have m: "matchSalary p (salary_range j) = matchSalary p' (salary_range j')"
    using assms by (simp add: matchSalary_def)
  have t: "matchJobType p (job_type j) = matchJobType p' (job_type j')"
    using assms by (simp add: matchJobType_def)
  show ?thesis
    unfolding calculateMatchScore_def l m t using assms(3,4) by simp
qed

theorem score_determined_by_inputs_witness:
  "ex_profile \<noteq> ex_profile_other \<and> ex_listing \<noteq> ex_listing_other
   \<and> calculateMatchScore ex_profile [''python''] [''developer''] ex_listing
       = calculateMatchScore ex_profile_other [''python''] [''developer''] ex_listing_other"
proof -
  have a: "ex_profile \<noteq> ex_profile_other"
    by (simp add: ex_profile_def ex_profile_other_def)
  have b: "ex_listing \<noteq> ex_listing_other"
    by (simp add: ex_listing_def ex_listing_other_def)
  have c: "calculateMatchScore ex_profile [''python''] [''developer''] ex_listing
       = calculateMatchScore ex_profile_other [''python''] [''developer''] ex_listing_other"
    by (rule score_determined_by_inputs)
       (simp_all add: ex_profile_def ex_profile_other_def ex_listing_def ex_listing_other_def)
  from a b c show ?thesis by simp
qed

text \<open>
  The scorer that asks a language model is not determined by its arguments: the same
  profile text, listing and preferences score 0.63 on one reply and 0.43 when the call
  fails.
\<close>

theorem ai_score_depends_on_reply_counterexample:
  "ai_total (calculateMatchScore_ai (Reply (Some [''python'']) (Some 1)) ''Skills: python''
      ex_legacy_job ex_preferences) = 63 / 100
   \<and> ai_total (calculateMatchScore_ai ApiFailure ''Skills: python'' ex_legacy_job ex_preferences)
      = 43 / 100
   \<and> ai_reasons (calculateMatchScore_ai (Reply (Some [''python'']) (Some 1)) ''Skills: python''
      ex_legacy_job ex_preferences)
     \<noteq> ai_reasons (calculateMatchScore_ai ApiFailure ''Skills: python'' ex_legacy_job ex_preferences)"
  by code_simp

subsection \<open>Queries and the matching loop\<close>

lemma query_eq:
  "query stmt db =
     (if faults db \<noteq> [] \<and> hd (faults db) then (Inl QueryError, after_call db)
      else (Inr (fst (stmt (after_call db))), snd (stmt (after_call db))))"
proof (cases "faults db")
  case Nil
  then have "after_call db = db" by (simp add: after_call_def)
  with Nil show ?thesis by (simp add: query_def split: prod.splits)
next
  case (Cons b bs)
  then show ?thesis by (simp add: query_def after_call_def split: prod.splits)
qed

lemma after_call_tables [simp]:
  "job_matches (after_call db) = job_matches db"
  "application_queue (after_call db) = application_queue db"
  "user_profiles (after_call db) = user_profiles db"
  "users (after_call db) = users db"
  "job_listings (after_call db) = job_listings db"
  "notifications (after_call db) = notifications db"
  "now (after_call db) = now db"
  by (simp_all add: after_call_def)

lemma match_loop_invariant:
  assumes "I db"
    and "\<And>d. I d \<Longrightarrow> I (after_call d)"
    and "\<And>d job. I d \<Longrightarrow> job \<in> set jobs \<Longrightarrow> 60 \<le> total (calculateMatchScore profile sk ti job) \<Longrightarrow>
           I (snd (insert_job_match userId (listing_id job)
                 (total (calculateMatchScore profile sk ti job))
                 (reasons (calculateMatchScore profile sk ti job)) d))"
  shows "I (snd (match_loop userId limit profile sk ti jobs matches db))"
  using assms(1,3)
proof (induction jobs arbitrary: matches db)
  case Nil
  then show ?case by simp
next
  case (Cons job rest)
  let ?sc = "calculateMatchScore profile sk ti job"
  let ?step = "(if total ?sc \<ge> 60 then
               (case query (insert_job_match userId (listing_id job) (total ?sc) (reasons ?sc)) db of
                  (Inr n, db1) \<Rightarrow>
                    (matches @ [\<lparr>mr_jobId = listing_id job, mr_title = title job,
                                  mr_company = company job, mr_location = location job,
                                  mr_match_score = total ?sc, mr_match_reasons = reasons ?sc\<rparr>], db1)
                | (Inl dbError, db1) \<Rightarrow> (matches, db1))
             else (matches, db))"
  have step: "I (snd ?step)"
  proof (cases "total ?sc \<ge> 60")
    case False
    then show ?thesis using Cons.prems(1) by simp
  next
    case True
    have a: "I (after_call db)" using Cons.prems(1) assms(2) by blast
    have b: "I (snd (insert_job_match userId (listing_id job) (total ?sc) (reasons ?sc) (after_call db)))"
      using Cons.prems(2)[OF a _ True] by simp
    show ?thesis using True a b by (simp add: query_eq)
  qed
  have rest: "\<And>d j. I d \<Longrightarrow> j \<in> set rest \<Longrightarrow> 60 \<le> total (calculateMatchScore profile sk ti j) \<Longrightarrow>
           I (snd (insert_job_match userId (listing_id j)
                 (total (calculateMatchScore profile sk ti j))
                 (reasons (calculateMatchScore profile sk ti j)) d))"
    using Cons.prems(2) by simp
  have unfold: "match_loop userId limit profile sk ti (job # rest) matches db =
     (if int (length (fst ?step)) \<ge> limit then ?step
      else match_loop userId limit profile sk ti rest (fst ?step) (snd ?step))"
    by (simp add: Let_def split: prod.splits)
  show ?case
    unfolding unfold using step Cons.IH[OF step rest] by (simp add: split_beta)
qed

lemma matchJobsForUser_try_eq:
  "matchJobsForUser_try userId limit db =
     (if faults db \<noteq> [] \<and> hd (faults db) then (Inl QueryError, after_call db)
      else case filter (\<lambda>p. user_id p = userId) (user_profiles db) of
        [] \<Rightarrow> (Inr [], after_call db)
      | profile # others \<Rightarrow>
          (case parse_or_empty (skills profile) of
             Inl e \<Rightarrow> (Inl e, after_call db)
           | Inr sk \<Rightarrow>
               (case parse_or_empty (desired_job_titles profile) of
                  Inl e \<Rightarrow> (Inl e, after_call db)
                | Inr ti \<Rightarrow>
                    if faults (after_call db) \<noteq> [] \<and> hd (faults (after_call db))
                    then (Inl QueryError, after_call (after_call db))
                    else (case fst (select_unmatched_jobs userId (after_call (after_call db))) of
                            [] \<Rightarrow> (Inr [], after_call (after_call db))
                          | job # rest \<Rightarrow>
                              (Inr (fst (match_loop userId limit profile sk ti (job # rest) []
                                          (after_call (after_call db)))),
                               snd (match_loop userId limit profile sk ti (job # rest) []
                                          (after_call (after_call db))))))))"
  unfolding matchJobsForUser_try_def
  by (simp add: query_eq select_profile_def select_unmatched_jobs_def Let_def split_beta
      del: match_loop.simps split: list.splits sum.splits)

lemma matchJobsForUser_eq:
  "matchJobsForUser userId limit db =
     (case fst (matchJobsForUser_try userId limit db) of
        Inl e \<Rightarrow> (Inr [], snd (matchJobsForUser_try userId limit db))
      | Inr ms \<Rightarrow> (Inr ms, snd (matchJobsForUser_try userId limit db)))"
  by (simp add: matchJobsForUser_def split: prod.splits sum.splits)

lemma matchJobsForUser_invariant:
  assumes "I db"
    and "\<And>d. I d \<Longrightarrow> I (after_call d)"
    and "\<And>d j t r. I d \<Longrightarrow> 60 \<le> t \<Longrightarrow> I (snd (insert_job_match userId j t r d))"
  shows "I (snd (matchJobsForUser userId limit db))"
proof -
  have a: "I (after_call db)" using assms by blast
  have b: "I (after_call (after_call db))" using a assms by blast
  have loop: "I (snd (match_loop userId limit p sk ti jobs [] (after_call (after_call db))))"
    for p sk ti jobs
  proof (rule match_loop_invariant[where I = I])
    show "I (after_call (after_call db))" by (rule b)
    show "\<And>d. I d \<Longrightarrow> I (after_call d)" by (rule assms(2))
    show "\<And>d job. I d \<Longrightarrow> job \<in> set jobs \<Longrightarrow> 60 \<le> total (calculateMatchScore p sk ti job) \<Longrightarrow>
           I (snd (insert_job_match userId (listing_id job)
                 (total (calculateMatchScore p sk ti job))
                 (reasons (calculateMatchScore p sk ti job)) d))"
      using assms(3) by blast
  qed
  have "I (snd (matchJobsForUser_try userId limit db))"
    unfolding matchJobsForUser_try_eq
    using a b loop
    by (simp del: match_loop.simps split: list.splits sum.splits)
  then show ?thesis
    by (simp add: matchJobsForUser_eq split: sum.splits)
qed

subsection \<open>C1: recording a match twice\<close>

lemma rows_for_insert:
  "rows_for u j (snd (insert_job_match u j t r db)) =
     (if rows_for u j db = [] then
        [\<lparr>jm_id = uuid_generate_v4 (map jm_id (job_matches db)), jm_user_id = u, jm_job_id = j,
          match_score = t, match_reasons = r, jm_status = ''pending'', reviewed = False,
          approved = False, jm_created_at = now db\<rparr>]
      else rows_for u j db)"
  by (auto simp: insert_job_match_def rows_for_def list_ex_iff filter_empty_conv)

lemma insert_present:
  assumes "rows_for u j db \<noteq> []"
  shows "insert_job_match u j t r db = (0, db)"
  using assms by (auto simp: insert_job_match_def rows_for_def list_ex_iff filter_empty_conv)

lemma record_all_present:
  assumes "rows_for u j db \<noteq> []"
  shows "record_all u j cs db = db"
  using assms by (induction cs) (simp_all add: insert_present)

lemma unique_rows_le_1:
  assumes "distinct (map f xs)"
  shows "length (filter (\<lambda>x. f x = k) xs) \<le> 1"
  using assms
proof (induction xs)
  case Nil
  then show ?case by simp
next
  case (Cons x xs)
  show ?case
  proof (cases "f x = k")
    case True
    then have "k \<notin> f ` set xs" using Cons.prems by auto
    then have "filter (\<lambda>x. f x = k) xs = []" by (auto simp: filter_empty_conv)
    with True show ?thesis by simp
  next
    case False
    then show ?thesis using Cons by simp
  qed
qed

lemma unique_user_job_rows:
  assumes "unique_user_job db"
  shows "length (rows_for u j db) \<le> 1"
proof -
  have "rows_for u j db = filter (\<lambda>m. (jm_user_id m, jm_job_id m) = (u, j)) (job_matches db)"
    by (simp add: rows_for_def)
  then show ?thesis
    using unique_rows_le_1[OF assms[unfolded unique_user_job_def], of "(u, j)"] by simp
qed

lemma unique_user_job_insert:
  assumes "unique_user_job db"
  shows "unique_user_job (snd (insert_job_match u j t r db))"
  using assms by (auto simp: insert_job_match_def unique_user_job_def list_ex_iff)

lemma unique_user_job_after_call:
  "unique_user_job db \<Longrightarrow> unique_user_job (after_call db)"
  by (simp add: unique_user_job_def)

lemma faults_insert_job_match [simp]:
  "faults (snd (insert_job_match u j t r db)) = faults db"
  by (simp add: insert_job_match_def)

text \<open>
  C1.  On a table that satisfies \<open>UNIQUE(user_id, job_id)\<close>, after one or more inserts for
  the same (user, listing) pair, whatever the scores, exactly one row of that pair exists;
  one more insert writes nothing and reports zero rows, and the \<open>query\<close> call making it
  resolves rather than rejects when the database answers; and the constraint still
  holds, also after a whole run of \<open>matchJobsForUser\<close>.
\<close>

theorem duplicate_insert_is_noop:
  assumes "unique_user_job db" and "calls \<noteq> []"
  shows "length (rows_for userId jobId (record_all userId jobId calls db)) = 1
         \<and> insert_job_match userId jobId t r (record_all userId jobId calls db)
             = (0, record_all userId jobId calls db)
         \<and> (faults db = [] \<longrightarrow>
               query (insert_job_match userId jobId t r) (record_all userId jobId calls db)
                 = (Inr 0, record_all userId jobId calls db))
         \<and> unique_user_job (record_all userId jobId calls db)
         \<and> unique_user_job (snd (matchJobsForUser u limit db))"
proof -
  obtain c cs where calls: "calls = c # cs" using assms(2) by (cases calls) auto
  let ?db1 = "snd (insert_job_match userId jobId (fst c) (snd c) db)"
  have u1: "unique_user_job ?db1" by (rule unique_user_job_insert[OF assms(1)])
  have ne: "rows_for userId jobId ?db1 \<noteq> []"
    by (simp add: rows_for_insert)
  have all: "record_all userId jobId calls db = ?db1"
    using record_all_present[OF ne] by (simp add: calls)
  have "length (rows_for userId jobId ?db1) \<le> 1" by (rule unique_user_job_rows[OF u1])
  moreover have "length (rows_for userId jobId ?db1) \<noteq> 0" using ne by simp
  ultimately have one: "length (rows_for userId jobId ?db1) = 1" by linarith
  have run: "unique_user_job (snd (matchJobsForUser u limit db))"
    by (rule matchJobsForUser_invariant[where I = unique_user_job, OF assms(1)])
       (simp_all add: unique_user_job_after_call unique_user_job_insert)
  have q: "query (insert_job_match userId jobId t r) ?db1 = (Inr 0, ?db1)" if "faults db = []"
  proof -
    have "faults ?db1 = []" using that by simp
    then have "after_call ?db1 = ?db1" by (simp add: after_call_def)
    then show ?thesis using \<open>faults ?db1 = []\<close> insert_present[OF ne, of t r]
      by (simp add: query_eq)
  qed
  show ?thesis
    unfolding all using one insert_present[OF ne] u1 run q by simp
qed

theorem duplicate_insert_is_noop_witness:
  "unique_user_job ex_db
   \<and> length (rows_for 7 5 (record_all 7 5 [(95, []), (80, []), (95, [])] ex_db)) = 1
   \<and> insert_job_match 7 5 61 [] (record_all 7 5 [(95, []), (80, []), (95, [])] ex_db)
        = (0, record_all 7 5 [(95, []), (80, []), (95, [])] ex_db)
   \<and> query (insert_job_match 7 5 61 []) (record_all 7 5 [(95, []), (80, []), (95, [])] ex_db)
        = (Inr 0, record_all 7 5 [(95, []), (80, []), (95, [])] ex_db)"
proof -
  have h: "unique_user_job ex_db" by (simp add: unique_user_job_def ex_db_def)
  have c: "[(95, []), (80, []), (95::int, []::reason list)] \<noteq> []" by simp
  have f: "faults ex_db = []" by (simp add: ex_db_def)
  from duplicate_insert_is_noop[OF h c, of 7 5 61 "[]"] h f show ?thesis by simp
qed

subsection \<open>C6: the threshold\<close>

lemma insert_job_match_new:
  assumes "x \<in> set (job_matches (snd (insert_job_match u j t r d)))"
  shows "x \<in> set (job_matches d) \<or> (jm_user_id x = u \<and> jm_job_id x = j \<and> match_score x = t)"
  using assms by (auto simp: insert_job_match_def split: if_splits)

text \<open>
  C6.  Every \<open>job_matches\<close> row present after \<open>matchJobsForUser\<close> was there before or has a
  score of at least 60; each row the loop adds carries the total of a listing of the list
  whose total is at least 60; and when every listing of the list scores below 60 the
  table is left as it was.
\<close>

theorem rows_meet_threshold:
  "(\<forall>x \<in> set (job_matches (snd (matchJobsForUser userId limit db))).
       x \<in> set (job_matches db) \<or> 60 \<le> match_score x)
   \<and> (\<forall>x \<in> set (job_matches (snd (match_loop userId limit profile sk ti jobs matches db))).
       x \<in> set (job_matches db)
       \<or> (\<exists>job \<in> set jobs. jm_job_id x = listing_id job
             \<and> match_score x = total (calculateMatchScore profile sk ti job)
             \<and> 60 \<le> total (calculateMatchScore profile sk ti job)))
   \<and> ((\<forall>job \<in> set jobs. total (calculateMatchScore profile sk ti job) < 60)
        \<longrightarrow> job_matches (snd (match_loop userId limit profile sk ti jobs matches db)) = job_matches db)"
proof (intro conjI)
  let ?I = "\<lambda>d. \<forall>x \<in> set (job_matches d). x \<in> set (job_matches db) \<or> 60 \<le> match_score x"
  have "?I (snd (matchJobsForUser userId limit db))"
  proof (rule matchJobsForUser_invariant[where I = ?I])
    show "?I db" by simp
    show "\<And>d. ?I d \<Longrightarrow> ?I (after_call d)" by simp
    show "\<And>d j t r. ?I d \<Longrightarrow> 60 \<le> t \<Longrightarrow> ?I (snd (insert_job_match userId j t r d))"
      using insert_job_match_new by blast
  qed
  then show "\<forall>x \<in> set (job_matches (snd (matchJobsForUser userId limit db))).
       x \<in> set (job_matches db) \<or> 60 \<le> match_score x" .
next
  let ?J = "\<lambda>d. \<forall>x \<in> set (job_matches d). x \<in> set (job_matches db)
       \<or> (\<exists>job \<in> set jobs. jm_job_id x = listing_id job
             \<and> match_score x = total (calculateMatchScore profile sk ti job)
             \<and> 60 \<le> total (calculateMatchScore profile sk ti job))"
  have "?J (snd (match_loop userId limit profile sk ti jobs matches db))"
  proof (rule match_loop_invariant[where I = ?J])
    show "?J db" by simp
    show "\<And>d. ?J d \<Longrightarrow> ?J (after_call d)" by simp
    show "\<And>d job. ?J d \<Longrightarrow> job \<in> set jobs \<Longrightarrow> 60 \<le> total (calculateMatchScore profile sk ti job) \<Longrightarrow>
           ?J (snd (insert_job_match userId (listing_id job)
                 (total (calculateMatchScore profile sk ti job))
                 (reasons (calculateMatchScore profile sk ti job)) d))"
      using insert_job_match_new by blast
  qed
  then show "\<forall>x \<in> set (job_matches (snd (match_loop userId limit profile sk ti jobs matches db))).
       x \<in> set (job_matches db)
       \<or> (\<exists>job \<in> set jobs. jm_job_id x = listing_id job
             \<and> match_score x = total (calculateMatchScore profile sk ti job)
             \<and> 60 \<le> total (calculateMatchScore profile sk ti job))" .
next
  show "(\<forall>job \<in> set jobs. total (calculateMatchScore profile sk ti job) < 60)
        \<longrightarrow> job_matches (snd (match_loop userId limit profile sk ti jobs matches db)) = job_matches db"
  proof
    assume low: "\<forall>job \<in> set jobs. total (calculateMatchScore profile sk ti job) < 60"
    let ?K = "\<lambda>d. job_matches d = job_matches db"
    show "?K (snd (match_loop userId limit profile sk ti jobs matches db))"
    proof (rule match_loop_invariant[where I = ?K])
      show "?K db" by simp
      show "\<And>d. ?K d \<Longrightarrow> ?K (after_call d)" by simp
      show "\<And>d job. ?K d \<Longrightarrow> job \<in> set jobs \<Longrightarrow> 60 \<le> total (calculateMatchScore profile sk ti job) \<Longrightarrow>
           ?K (snd (insert_job_match userId (listing_id job)
                 (total (calculateMatchScore profile sk ti job))
                 (reasons (calculateMatchScore profile sk ti job)) d))"
        using low by fastforce
    qed
  qed
qed

theorem rows_meet_threshold_witness:
  "map jm_job_id (job_matches (snd (matchJobsForUser 7 10 ex_db))) = [5, 6]
   \<and> list_all (\<lambda>x. 60 \<le> match_score x) (job_matches (snd (matchJobsForUser 7 10 ex_db)))
   \<and> total (calculateMatchScore ex_profile [''python'', ''react''] [''engineer''] ex_listing_poor) < 60"
proof -
  have a: "map jm_job_id (job_matches (snd (matchJobsForUser 7 10 ex_db))) = [5, 6]"
    by code_simp
  have b: "job_matches ex_db = []" by (simp add: ex_db_def)
  have c: "total (calculateMatchScore ex_profile [''python'', ''react''] [''engineer''] ex_listing_poor) < 60"
    by code_simp
  from rows_meet_threshold[of 7 10 ex_db, THEN conjunct1] b
  have "list_all (\<lambda>x. 60 \<le> match_score x) (job_matches (snd (matchJobsForUser 7 10 ex_db)))"
    by (simp add: list_all_iff)
  with a c show ?thesis by simp
qed

subsection \<open>C10: \<open>matchJobsForUser\<close> does not throw\<close>

lemma rejects_iff: "rejects db \<longleftrightarrow> faults db \<noteq> [] \<and> hd (faults db)"
  by (cases "faults db") (simp_all add: rejects_def)

lemma parse_or_empty_Inl: "(\<exists>e. parse_or_empty col = Inl e) \<longleftrightarrow> col = Some ParseError"
  by (auto simp: parse_or_empty_def split: option.splits json_parse.splits)

lemma try_throws_iff:
  "(\<exists>e. fst (matchJobsForUser_try userId limit db) = Inl e) \<longleftrightarrow>
     (rejects db
      \<or> (\<exists>p ps. filter (\<lambda>p. user_id p = userId) (user_profiles db) = p # ps
            \<and> (skills p = Some ParseError \<or> desired_job_titles p = Some ParseError
                 \<or> rejects (after_call db))))"
proof (cases "rejects db")
  case True
  then show ?thesis by (simp add: matchJobsForUser_try_eq rejects_iff)
next
  case False
  show ?thesis
  proof (cases "filter (\<lambda>p. user_id p = userId) (user_profiles db)")
    case Nil
    then show ?thesis using False by (simp add: matchJobsForUser_try_eq rejects_iff)
  next
    case (Cons p ps)
    show ?thesis
      using False Cons parse_or_empty_Inl[of "skills p"] parse_or_empty_Inl[of "desired_job_titles p"]
      by (auto simp: matchJobsForUser_try_eq rejects_iff
          simp del: match_loop.simps split: sum.splits list.splits)
  qed
qed

text \<open>
  C10, as the code has it.  \<open>matchJobsForUser\<close> always returns a list: the empty list when
  the user has no profile row, and the empty list when an error leaves the body of its
  \<open>try\<close>; and the errors that leave it are a rejected profile query and, for a user with a
  profile, a skills or titles column that does not parse and a rejected listing query.
\<close>

theorem matchJobsForUser_never_throws:
  "(\<exists>ms. fst (matchJobsForUser userId limit db) = Inr ms)
   \<and> (filter (\<lambda>p. user_id p = userId) (user_profiles db) = []
        \<longrightarrow> fst (matchJobsForUser userId limit db) = Inr [])
   \<and> (\<forall>e. fst (matchJobsForUser_try userId limit db) = Inl e
        \<longrightarrow> fst (matchJobsForUser userId limit db) = Inr [])
   \<and> ((\<exists>e. fst (matchJobsForUser_try userId limit db) = Inl e) \<longleftrightarrow>
         (rejects db
          \<or> (\<exists>p ps. filter (\<lambda>p. user_id p = userId) (user_profiles db) = p # ps
                \<and> (skills p = Some ParseError \<or> desired_job_titles p = Some ParseError
                     \<or> rejects (after_call db)))))"
proof -
  have a: "\<exists>ms. fst (matchJobsForUser userId limit db) = Inr ms"
    by (simp add: matchJobsForUser_eq split: sum.splits)
  have b: "fst (matchJobsForUser userId limit db) = Inr []"
    if "filter (\<lambda>p. user_id p = userId) (user_profiles db) = []"
    using that by (simp add: matchJobsForUser_eq matchJobsForUser_try_eq)
  have c: "fst (matchJobsForUser userId limit db) = Inr []"
    if "fst (matchJobsForUser_try userId limit db) = Inl e" for e
    using that by (simp add: matchJobsForUser_eq)
  from a b c try_throws_iff[of userId limit db] show ?thesis by blast
qed

theorem matchJobsForUser_never_throws_witness:
  "filter (\<lambda>p. user_id p = 8) (user_profiles ex_db) = []
   \<and> fst (matchJobsForUser 8 10 ex_db) = Inr []
   \<and> fst (matchJobsForUser_try 7 10 (ex_db\<lparr>faults := [False, True]\<rparr>)) = Inl QueryError
   \<and> fst (matchJobsForUser 7 10 (ex_db\<lparr>faults := [False, True]\<rparr>)) = Inr []"
proof -
  have a: "filter (\<lambda>p. user_id p = 8) (user_profiles ex_db) = []"
    by code_simp
  have b: "fst (matchJobsForUser_try 7 10 (ex_db\<lparr>faults := [False, True]\<rparr>)) = Inl QueryError"
    by code_simp
  from matchJobsForUser_never_throws[of 8 10 ex_db] a
  have c: "fst (matchJobsForUser 8 10 ex_db) = Inr []" by blast
  from matchJobsForUser_never_throws[of 7 10 "ex_db\<lparr>faults := [False, True]\<rparr>"] b
  have d: "fst (matchJobsForUser 7 10 (ex_db\<lparr>faults := [False, True]\<rparr>)) = Inr []" by blast
  from a b c d show ?thesis by simp
qed

text \<open>
  An error inside the loop does not empty the result: when the insert for the first
  matching listing fails, that listing is skipped and the second one is still saved and
  returned.
\<close>

theorem insert_failure_counterexample:
  "map mr_jobId (projr (fst (matchJobsForUser 7 10 (ex_db\<lparr>faults := [False, False, True]\<rparr>)))) = [6]
   \<and> fst (query (insert_job_match 7 5 95 []) (ex_db\<lparr>faults := [True]\<rparr>)) = Inl QueryError
   \<and> fst (matchJobsForUser 7 10 (ex_db\<lparr>faults := [False, False, True]\<rparr>)) \<noteq> Inr []"
  by code_simp

subsection \<open>C2: reviewing a match again\<close>

lemma hit_unique:
  assumes "distinct (map jm_id ms)" and "m \<in> set ms"
  shows "filter (\<lambda>x. jm_id x = jm_id m \<and> jm_user_id x = jm_user_id m) ms = [m]"
  using assms
proof (induction ms)
  case Nil
  then show ?case by simp
next
  case (Cons a ms)
  show ?case
  proof (cases "a = m")
    case True
    have "jm_id m \<notin> jm_id ` set ms" using Cons.prems True by auto
    then have "filter (\<lambda>x. jm_id x = jm_id m \<and> jm_user_id x = jm_user_id m) ms = []"
      by (auto simp: filter_empty_conv) (metis imageI)
    with True show ?thesis by simp
  next
    case False
    then have m: "m \<in> set ms" using Cons.prems by auto
    then have "jm_id a \<noteq> jm_id m" using Cons.prems by auto
    then show ?thesis using Cons m by simp
  qed
qed

lemma update_on_reviewed:
  assumes "distinct (map jm_id (job_matches db))" and "m \<in> set (job_matches db)"
  shows "map (\<lambda>x. if jm_id x = jm_id m \<and> jm_user_id x = jm_user_id m then f x else x) (job_matches db)
           = map (\<lambda>x. if x = m then f m else x) (job_matches db)"
proof -
  let ?hit = "\<lambda>x. jm_id x = jm_id m \<and> jm_user_id x = jm_user_id m"
  have f: "filter ?hit (job_matches db) = [m]" by (rule hit_unique[OF assms(1,2)])
  have h: "?hit x \<longleftrightarrow> x = m" if "x \<in> set (job_matches db)" for x
  proof
    assume "?hit x"
    then have "x \<in> set (filter ?hit (job_matches db))" using that by simp
    then show "x = m" unfolding f by simp
  qed simp
  show ?thesis using h by (auto intro!: map_cong)
qed

text \<open>
  C2, as the code has it.  Reviewing a match that is already reviewed is not rejected: with
  the database answering, \<open>reviewMatch\<close> returns the row with \<open>approved\<close> set to the new
  decision and stores it, \<open>reviewed\<close> staying true; the guest handler answers success and
  rewrites \<open>approved\<close> and \<open>status\<close> alike.  The row stays as it was only when the values
  written are the ones it already holds.
\<close>

theorem review_again_overwrites:
  assumes "distinct (map jm_id (job_matches db))" and "m \<in> set (job_matches db)"
    and "reviewed m" and "faults db = []"
    and "filter (\<lambda>u. tracking_token u = token) (users db) = usr # others"
    and "usr_id usr = jm_user_id m"
  shows "reviewMatch (jm_user_id m) (jm_id m) decision db
           = (Inr (Some (m\<lparr>approved := decision\<rparr>)),
              db\<lparr>job_matches := map (\<lambda>x. if x = m then m\<lparr>approved := decision\<rparr> else x) (job_matches db)\<rparr>)
         \<and> is_ok (fst (guest_review_route token (jm_id m) (Some decision) db))
         \<and> job_matches (snd (guest_review_route token (jm_id m) (Some decision) db))
             = map (\<lambda>x. if x = m
                         then m\<lparr>approved := decision,
                                jm_status := (if decision then ''approved'' else ''rejected'')\<rparr>
                         else x) (job_matches db)"
proof -
  let ?hit = "\<lambda>x. jm_id x = jm_id m \<and> jm_user_id x = jm_user_id m"
  have f: "filter ?hit (job_matches db) = [m]" by (rule hit_unique[OF assms(1,2)])
  have u: "m\<lparr>reviewed := True, approved := decision\<rparr> = m\<lparr>approved := decision\<rparr>"
    using assms(3) by simp
  have ac: "after_call d = d" if "faults d = []" for d :: database
    using that by (simp add: after_call_def)
  have q: "query stmt d = (Inr (fst (stmt d)), snd (stmt d))" if "faults d = []"
    for d :: database and stmt :: "database \<Rightarrow> 'x \<times> database"
    using that by (simp add: query_eq ac)
  have a: "reviewMatch (jm_user_id m) (jm_id m) decision db
           = (Inr (Some (m\<lparr>approved := decision\<rparr>)),
              db\<lparr>job_matches := map (\<lambda>x. if x = m then m\<lparr>approved := decision\<rparr> else x) (job_matches db)\<rparr>)"
    using f u update_on_reviewed[OF assms(1,2), of "\<lambda>x. x\<lparr>reviewed := True, approved := decision\<rparr>"]
    by (simp add: reviewMatch_def q[OF assms(4)] update_match_review_def Let_def)
  let ?st = "if decision then ''approved'' else ''rejected''"
  let ?upd = "\<lambda>x. x\<lparr>reviewed := True, approved := decision, jm_status := ?st\<rparr>"
  let ?db2 = "db\<lparr>job_matches := map (\<lambda>x. if ?hit x then ?upd x else x) (job_matches db)\<rparr>"
  have u2: "?upd m = m\<lparr>approved := decision, jm_status := ?st\<rparr>"
    using assms(3) by simp
  have s1: "query (select_user_by_token token) db = (Inr (usr # others), db)"
    using assms(5) by (simp add: q[OF assms(4)] select_user_by_token_def)
  have s2: "query (update_match_review_status decision ?st (jm_id m) (usr_id usr)) db
              = (Inr [?upd m], ?db2)"
    using f assms(6) by (simp add: q[OF assms(4)] update_match_review_status_def Let_def)
  have f2: "faults ?db2 = []" using assms(4) by simp
  have s3: "query (insert_queue_guest (usr_id usr) (jm_id m)) ?db2
              = (Inr 1, snd (insert_queue_guest (usr_id usr) (jm_id m) ?db2))"
    by (simp add: q[OF f2] insert_queue_guest_def)
  have jm3: "job_matches (snd (insert_queue_guest (usr_id usr) (jm_id m) ?db2)) = job_matches ?db2"
    by (simp add: insert_queue_guest_def)
  have tbl: "job_matches ?db2 = map (\<lambda>x. if x = m then m\<lparr>approved := decision, jm_status := ?st\<rparr> else x) (job_matches db)"
    using update_on_reviewed[OF assms(1,2), of ?upd] u2 by simp
  have b: "is_ok (fst (guest_review_route token (jm_id m) (Some decision) db))"
    unfolding guest_review_route_def by (simp add: s1 s2 s3 is_ok_def del: snd_conv)
  have c: "job_matches (snd (guest_review_route token (jm_id m) (Some decision) db)) = job_matches ?db2"
    unfolding guest_review_route_def using jm3 by (simp add: s1 s2 s3)
  from a b c tbl show ?thesis by simp
qed

theorem review_again_overwrites_witness:
  "reviewed ex_match_reviewed \<and> approved ex_match_reviewed
   \<and> fst (reviewMatch 7 1 False ex_db_reviewed) = Inr (Some (ex_match_reviewed\<lparr>approved := False\<rparr>))
   \<and> is_ok (fst (guest_review_route ''tok-7'' 1 (Some False) ex_db_reviewed))"
proof -
  have h1: "distinct (map jm_id (job_matches ex_db_reviewed))"
    by (simp add: ex_db_reviewed_def ex_match_reviewed_def ex_match_pending_def)
  have h2: "ex_match_reviewed \<in> set (job_matches ex_db_reviewed)"
    by (simp add: ex_db_reviewed_def)
  have h3: "reviewed ex_match_reviewed" and h3': "approved ex_match_reviewed"
    by (simp_all add: ex_match_reviewed_def)
  have h4: "faults ex_db_reviewed = []"
    by (simp add: ex_db_reviewed_def ex_db_def)
  have h5: "filter (\<lambda>u. tracking_token u = ''tok-7'') (users ex_db_reviewed)
              = \<lparr>usr_id = 7, tracking_token = ''tok-7''\<rparr> # []"
    by (simp add: ex_db_reviewed_def ex_db_def)
  have h6: "usr_id \<lparr>usr_id = 7, tracking_token = ''tok-7''\<rparr> = jm_user_id ex_match_reviewed"
    by (simp add: ex_match_reviewed_def)
  have ids: "jm_user_id ex_match_reviewed = 7" "jm_id ex_match_reviewed = 1"
    by (simp_all add: ex_match_reviewed_def)
  from review_again_overwrites[OF h1 h2 h3 h4 h5 h6, of False] h3 h3'
  show ?thesis unfolding ids by simp
qed

text \<open>
  A match already reviewed and approved is reviewed again with a rejection: no error is
  raised, the handler answers ``Match rejected'' and the row now reads rejected.
\<close>

theorem review_again_counterexample:
  "reviewed ex_match_reviewed \<and> approved ex_match_reviewed
   \<and> ex_match_reviewed \<in> set (job_matches ex_db_reviewed)
   \<and> guest_review_route ''tok-7'' 1 (Some False) ex_db_reviewed
       = (Json_ok ''Match rejected''
            (ex_match_reviewed\<lparr>approved := False, jm_status := ''rejected''\<rparr>),
          ex_db_reviewed\<lparr>job_matches :=
            [ex_match_reviewed\<lparr>approved := False, jm_status := ''rejected''\<rparr>, ex_match_pending]\<rparr>)
   \<and> fst (reviewMatch 7 1 False ex_db_reviewed)
       = Inr (Some (ex_match_reviewed\<lparr>approved := False\<rparr>))"
  by code_simp

subsection \<open>C3: what a review enqueues\<close>

lemma queued_for_after_call [simp]: "queued_for mid (after_call db) = queued_for mid db"
  by (simp add: queued_for_def)

lemma queued_for_update_review [simp]:
  "queued_for mid (snd (update_match_review a matchId userId db)) = queued_for mid db"
  "queued_for mid (snd (update_match_review_status a st matchId userId db)) = queued_for mid db"
  "queued_for mid (snd (select_user_by_token token db)) = queued_for mid db"
  by (simp_all add: queued_for_def update_match_review_def update_match_review_status_def
      select_user_by_token_def Let_def)

lemma insert_queue_for_match_eq:
  "insert_queue_for_match matchId db = (Inl QueryError, after_call db)"
  by (simp add: insert_queue_for_match_def after_call_def)

lemma queued_for_insert [simp]:
  "length (queued_for mid (snd (insert_queue_guest userId matchId db)))
     = length (queued_for mid db) + (if mid = matchId then 1 else 0)"
  by (simp add: queued_for_def insert_queue_guest_def)

text \<open>
  C3, as the code has it.  One call of a review handler adds exactly one queue row for the
  match when it approves and answers success, and none otherwise (a rejection, a refused
  request, a failure); rows of other matches are not touched.  Nothing limits the number
  of approving calls, so each further approval of the same match adds another row.
\<close>

theorem review_enqueues:
  "length (queued_for mid (snd (review_route userId matchId body db)))
     = length (queued_for mid db)
       + (if mid = matchId \<and> body = Some True \<and> is_ok (fst (review_route userId matchId body db))
          then 1 else 0)
   \<and> length (queued_for mid (snd (guest_review_route token matchId body db)))
     = length (queued_for mid db)
       + (if mid = matchId \<and> body = Some True \<and> is_ok (fst (guest_review_route token matchId body db))
          then 1 else 0)"
proof
  show "length (queued_for mid (snd (review_route userId matchId body db)))
     = length (queued_for mid db)
       + (if mid = matchId \<and> body = Some True \<and> is_ok (fst (review_route userId matchId body db))
          then 1 else 0)"
    unfolding review_route_def reviewMatch_def
    by (simp add: query_eq is_ok_def insert_queue_for_match_eq split: option.splits list.splits)
next
  show "length (queued_for mid (snd (guest_review_route token matchId body db)))
     = length (queued_for mid db)
       + (if mid = matchId \<and> body = Some True \<and> is_ok (fst (guest_review_route token matchId body db))
          then 1 else 0)"
    unfolding guest_review_route_def
    by (simp add: query_eq is_ok_def split: option.splits list.splits)
qed

theorem review_enqueues_witness:
  "is_ok (fst (guest_review_route ''tok-7'' 2 (Some True) ex_db_reviewed))
   \<and> length (queued_for 2 (snd (guest_review_route ''tok-7'' 2 (Some True) ex_db_reviewed))) = 1
   \<and> is_ok (fst (guest_review_route ''tok-7'' 2 (Some False) ex_db_reviewed))
   \<and> length (queued_for 2 (snd (guest_review_route ''tok-7'' 2 (Some False) ex_db_reviewed))) = 0
   \<and> fst (review_route 7 2 (Some True) ex_db_reviewed) = Json_error 500 ''Failed to review match''
   \<and> length (queued_for 2 (snd (review_route 7 2 (Some True) ex_db_reviewed))) = 0"
proof -
  have a: "is_ok (fst (guest_review_route ''tok-7'' 2 (Some True) ex_db_reviewed))" by code_simp
  have b: "is_ok (fst (guest_review_route ''tok-7'' 2 (Some False) ex_db_reviewed))" by code_simp
  have c: "queued_for 2 ex_db_reviewed = []" by code_simp
  have d: "fst (review_route 7 2 (Some True) ex_db_reviewed) = Json_error 500 ''Failed to review match''"
    by code_simp
  from review_enqueues[of 2 7 2 "Some True" ex_db_reviewed "''tok-7''"]
    review_enqueues[of 2 7 2 "Some False" ex_db_reviewed "''tok-7''", THEN conjunct2] a b c d
  show ?thesis by (simp add: is_ok_def)
qed

text \<open>
  Two approving calls of the guest handler for the same match both answer success and
  leave two queue rows for it.
\<close>

theorem review_twice_counterexample:
  "is_ok (fst (guest_review_route ''tok-7'' 2 (Some True) ex_db_reviewed))
   \<and> is_ok (fst (guest_review_route ''tok-7'' 2 (Some True)
                (snd (guest_review_route ''tok-7'' 2 (Some True) ex_db_reviewed))))
   \<and> length (queued_for 2 (snd (guest_review_route ''tok-7'' 2 (Some True)
                (snd (guest_review_route ''tok-7'' 2 (Some True) ex_db_reviewed))))) = 2"
  by code_simp

subsection \<open>C4: failed attempts and the queue record\<close>

lemma query_by_job_id_eq: "query_by_job_id stmt jobId db = (Inl QueryError, after_call db)"
  by (simp add: query_by_job_id_def after_call_def)

text \<open>
  C4 is not what the worker does.  Every run of the processor, whatever the job, the
  attempts made so far, the outcome \<open>applyToJob\<close> would have and the database, ends by
  throwing the error of its own \<open>UPDATE\<close>: the statements are keyed by the queue's job id,
  which the UUID column refuses, so the attempt is not made, and no row of
  \<open>application_queue\<close> is changed - none becomes \<open>failed\<close> and no error message is stored,
  after the first attempt or the third.  And \<open>queueApplication\<close> hands the job to the queue
  and then throws, its \<open>INSERT\<close> naming a column the table does not have: the job is in the
  queue without a queue record.
\<close>

theorem failed_attempts_leave_no_trace:
  "fst (processor job result db) = Threw (message QueryError)
   \<and> snd (processor job result db) = after_call (after_call db)
   \<and> application_queue (snd (processor job result db)) = application_queue db
   \<and> queueApplication userId jobListingId matchId (jobs, db)
       = (Inl QueryError,
          jobs @ [\<lparr>bj_id = QueueId (Suc (length jobs)), bj_userId = userId,
                   bj_jobListingId = jobListingId, bj_matchId = matchId, attemptsMade = 0,
                   opt_attempts = 3, opt_backoff_delay = 5000\<rparr>],
          after_call db)
   \<and> application_queue (after_call db) = application_queue db"
  by (simp add: processor_def queueApplication_def query_by_job_id_eq insert_queue_for_match_eq
      after_call_def)

theorem failed_attempts_leave_no_trace_witness:
  "map (\<lambda>q. (aq_match_id q, aq_status q, aq_error_message q, aq_retry_count q))
       (application_queue ex_db_approved) = [(Some 2, ''pending'', None, 0)]
   \<and> fst (processor ex_bull_job (NotApplied ''timeout'') ex_db_approved) = Threw ''query failed''
   \<and> map (\<lambda>q. (aq_match_id q, aq_status q, aq_error_message q, aq_retry_count q))
       (application_queue
         (snd (processor (ex_bull_job\<lparr>attemptsMade := 2\<rparr>) (NotApplied ''timeout'')
           (snd (processor (ex_bull_job\<lparr>attemptsMade := 1\<rparr>) (NotApplied ''timeout'')
             (snd (processor ex_bull_job (NotApplied ''timeout'') ex_db_approved)))))))
       = [(Some 2, ''pending'', None, 0)]
   \<and> fst (queueApplication 7 5 2 ([], ex_db_reviewed)) = Inl QueryError
   \<and> fst (snd (queueApplication 7 5 2 ([], ex_db_reviewed))) = [ex_bull_job]
   \<and> application_queue (snd (snd (queueApplication 7 5 2 ([], ex_db_reviewed)))) = []"
proof -
  have q: "map (\<lambda>q. (aq_match_id q, aq_status q, aq_error_message q, aq_retry_count q))
       (application_queue ex_db_approved) = [(Some 2, ''pending'', None, 0)]"
    by code_simp
  have r: "application_queue ex_db_reviewed = []" by code_simp
  have m: "message QueryError = ''query failed''" by (simp add: message_def)
  have j: "ex_bull_job = \<lparr>bj_id = QueueId (Suc (length ([] :: bull_job list))), bj_userId = 7,
                   bj_jobListingId = 5, bj_matchId = 2, attemptsMade = 0,
                   opt_attempts = 3, opt_backoff_delay = 5000\<rparr>"
    by (simp add: ex_bull_job_def)
  note t = failed_attempts_leave_no_trace
  have 1: "fst (processor job (NotApplied ''timeout'') db) = Threw ''query failed''" for job db
    using t[of job "NotApplied ''timeout''" db] m by simp
  have 2: "application_queue (snd (processor job (NotApplied ''timeout'') db)) = application_queue db"
    for job db
    using t[of job "NotApplied ''timeout''" db] by simp
  have 3: "queueApplication 7 5 2 ([], ex_db_reviewed) = (Inl QueryError, [ex_bull_job], after_call ex_db_reviewed)
           \<and> application_queue (after_call ex_db_reviewed) = application_queue ex_db_reviewed"
    using t[of _ _ ex_db_reviewed 7 5 2 "[]"] j by simp
  show ?thesis
    using q r 3 by (simp add: 1 2)
qed

end
